theory Spec2Isabelle
  imports Main "HOL-Library.AList"
begin

section \<open>Values and results\<close>

text \<open>
  The resolver of \<^verbatim>\<open>src/index.ts\<close> turns a syntax node of the TypeScript compiler into
  a \<^verbatim>\<open>ResolverResult\<close>. JavaScript numbers are IEEE doubles; they are not modelled
  here but kept as a type parameter \<open>'n\<close>, with the built-in operations the resolver
  uses on them supplied by the \<open>host\<close> record below.

  A JavaScript exception is a value of \<open>error\<close>. \<open>RangeError\<close> is the engine's
  "Maximum call stack size exceeded": every function of the resolver carries the number
  of nested calls the stack still has room for, and a call made with no room left
  throws. \<open>SyntaxError\<close> is what \<^verbatim>\<open>BigInt(text)\<close> and \<^verbatim>\<open>new RegExp(text)\<close> throw on
  a text they cannot read. \<open>TypeError\<close> is what the coercion of an object to a
  property key throws when the object has no usable \<^verbatim>\<open>toString\<close>.
\<close>

datatype error = RangeError | SyntaxError | TypeError

text \<open>
  The values a result can carry. A compiled pattern is kept as its \<^verbatim>\<open>source\<close>
  (the resolver never gives flags to the constructor). A plain object is its prototype
  and the list of its own properties, in creation order; the prototype is \<open>None\<close>
  as long as it is \<^verbatim>\<open>Object.prototype\<close>, the one \<^verbatim>\<open>{}\<close> gives, and \<open>Some v\<close> once
  it has been replaced by the object \<open>v\<close>.
\<close>

datatype 'n jsvalue =
    JSNumber 'n
  | JSBigInt int
  | JSString string
  | JSRegExp string
  | JSBoolean bool
  | JSArray "'n jsvalue list"
  | JSObject "'n jsobject"
  | JSUndefined
and 'n jsobject =
    PlainObject (prototype: "'n jsvalue option") (ownProperties: "(string \<times> 'n jsvalue) list")

text \<open>
  \<^verbatim>\<open>ResolverResult\<close> (index.ts, lines 3-39) is a tagged union: the constructor is the
  \<^verbatim>\<open>valueType\<close>, its argument the \<^verbatim>\<open>value\<close>. \<open>ResUnresolved\<close> is
  \<^verbatim>\<open>{ valueType: undefined, value: undefined }\<close>.
\<close>

datatype 'n ResolverResult =
    ResNumericLiteral 'n
  | ResBigIntLiteral int
  | ResStringLiteral string
  | ResRegularExpressionLiteral string
  | ResTrueKeyword
  | ResFalseKeyword
  | ResArrayLiteralExpression "'n jsvalue list"
  | ResObjectLiteralExpression "'n jsobject"
  | ResUnresolved

fun valueType :: "'n ResolverResult \<Rightarrow> string option" where
  "valueType (ResNumericLiteral x) = Some ''NumericLiteral''"
| "valueType (ResBigIntLiteral i) = Some ''BigIntLiteral''"
| "valueType (ResStringLiteral s) = Some ''StringLiteral''"
| "valueType (ResRegularExpressionLiteral r) = Some ''RegularExpressionLiteral''"
| "valueType ResTrueKeyword = Some ''TrueKeyword''"
| "valueType ResFalseKeyword = Some ''FalseKeyword''"
| "valueType (ResArrayLiteralExpression vs) = Some ''ArrayLiteralExpression''"
| "valueType (ResObjectLiteralExpression ob) = Some ''ObjectLiteralExpression''"
| "valueType ResUnresolved = None"

text \<open>The \<^verbatim>\<open>value\<close> field of a result (\<^verbatim>\<open>res.value\<close> in the source).\<close>

fun resultValue :: "'n ResolverResult \<Rightarrow> 'n jsvalue" where
  "resultValue (ResNumericLiteral x) = JSNumber x"
| "resultValue (ResBigIntLiteral i) = JSBigInt i"
| "resultValue (ResStringLiteral s) = JSString s"
| "resultValue (ResRegularExpressionLiteral r) = JSRegExp r"
| "resultValue ResTrueKeyword = JSBoolean True"
| "resultValue ResFalseKeyword = JSBoolean False"
| "resultValue (ResArrayLiteralExpression vs) = JSArray vs"
| "resultValue (ResObjectLiteralExpression ob) = JSObject ob"
| "resultValue ResUnresolved = JSUndefined"

section \<open>Syntax nodes, symbols, types and the semantic model\<close>

text \<open>
  A node is its \<^verbatim>\<open>kind\<close> with the fields the resolver reads after the cast that
  follows the \<^verbatim>\<open>switch (expr.kind)\<close>. Every kind the switch does not name is
  \<open>OtherNode\<close>. An identifier carries its position besides its \<^verbatim>\<open>escapedText\<close>:
  the checker looks a symbol up for the node at a place, not for a spelling.
\<close>

datatype prefixUnaryOperator =
  PlusToken | MinusToken | TildeToken | ExclamationToken | PlusPlusToken | MinusMinusToken

datatype node =
    TemplateExpression string "templateSpan list"
  | NumericLiteral string
  | BigIntLiteral string
  | StringLiteral string
  | NoSubstitutionTemplateLiteral string
  | RegularExpressionLiteral string
  | TrueKeyword
  | FalseKeyword
  | PrefixUnaryExpression prefixUnaryOperator node
  | ArrayLiteralExpression "node list"
  | ParenthesizedExpression node
  | ComputedPropertyName node
  | VariableDeclaration "node option"
  | AsExpression node
  | ObjectLiteralExpression "objectLiteralElement list"
  | Identifier nat string
  | OtherNode
and templateSpan =
    TemplateSpan (span_expression: node) (span_literal_text: string)
and objectLiteralElement =
    PropertyAssignment node node
  | ShorthandPropertyAssignment node
  | SpreadAssignment node
  | MethodDeclaration node
  | GetAccessor node
  | SetAccessor node

text \<open>
  The \<^verbatim>\<open>escapedText\<close> of an identifier is not always its name: the compiler stores a
  name that begins with two underscores with a third one in front
  (\<^verbatim>\<open>ts.escapeLeadingUnderscores\<close>), and gives the name back through
  \<^verbatim>\<open>ts.unescapeLeadingUnderscores\<close>, which is what \<^verbatim>\<open>identifier.text\<close> and
  \<^verbatim>\<open>ts.idText\<close> return.
\<close>

definition escapeLeadingUnderscores :: "string \<Rightarrow> string" where
  "escapeLeadingUnderscores identifier =
     (if take 2 identifier = ''__'' then ''_'' @ identifier else identifier)"

definition unescapeLeadingUnderscores :: "string \<Rightarrow> string" where
  "unescapeLeadingUnderscores identifier =
     (if take 3 identifier = ''___'' then drop 1 identifier else identifier)"

text \<open>
  \<^verbatim>\<open>ts.Symbol\<close> and \<^verbatim>\<open>ts.Type\<close>, with the fields the resolver reads. The
  \<^verbatim>\<open>value\<close> of a type is read through a cast to \<^verbatim>\<open>ts.StringLiteralType\<close>
  (a string) or to \<^verbatim>\<open>ts.NumberLiteralType\<close> (a number): one field for each cast.
  \<open>symbol_id\<close> and \<open>type_id\<close> stand for the identity of the object.
\<close>

record symbol =
  symbol_id :: nat
  symbol_flags :: nat
  escapedName :: string
  valueDeclaration :: "node option"

record 'n tsType =
  type_id :: nat
  type_flags :: nat
  objectFlags :: nat
  StringLiteralType_value :: string
  NumberLiteralType_value :: 'n
  type_symbol :: "symbol option"

text \<open>
  The members of \<^verbatim>\<open>ts.SymbolFlags\<close>, \<^verbatim>\<open>ts.TypeFlags\<close> and
  \<^verbatim>\<open>ts.ObjectFlags\<close> the resolver compares with, at their values in the TypeScript 5
  compiler API.
\<close>

definition SymbolFlags_BlockScopedVariable :: nat where
  "SymbolFlags_BlockScopedVariable = 2"

definition SymbolFlags_Property :: nat where
  "SymbolFlags_Property = 4"

definition SymbolFlags_Function :: nat where
  "SymbolFlags_Function = 16"

definition SymbolFlags_ObjectLiteral :: nat where
  "SymbolFlags_ObjectLiteral = 4096"

definition SymbolFlags_Alias :: nat where
  "SymbolFlags_Alias = 2097152"

definition TypeFlags_Any :: nat where
  "TypeFlags_Any = 1"

definition TypeFlags_StringLiteral :: nat where
  "TypeFlags_StringLiteral = 128"

definition TypeFlags_NumberLiteral :: nat where
  "TypeFlags_NumberLiteral = 256"

definition TypeFlags_BooleanLiteral :: nat where
  "TypeFlags_BooleanLiteral = 512"

definition TypeFlags_BigIntLiteral :: nat where
  "TypeFlags_BigIntLiteral = 2048"

definition TypeFlags_Object :: nat where
  "TypeFlags_Object = 524288"

definition ObjectFlags_Reference :: nat where
  "ObjectFlags_Reference = 4"

definition ObjectFlags_Tuple :: nat where
  "ObjectFlags_Tuple = 8"

definition ObjectFlags_Anonymous :: nat where
  "ObjectFlags_Anonymous = 16"

text \<open>
  The semantic model: the four queries the resolver sends to
  \<^verbatim>\<open>program.getTypeChecker()\<close>.
\<close>

record 'n program =
  getSymbolAtLocation :: "node \<Rightarrow> symbol option"
  getAliasedSymbol :: "symbol \<Rightarrow> symbol"
  getTypeOfSymbol :: "symbol \<Rightarrow> 'n tsType"
  getTypeArguments :: "'n tsType \<Rightarrow> 'n tsType list"

text \<open>
  The JavaScript built-ins the resolver calls: \<^verbatim>\<open>parseFloat\<close>, unary minus,
  \<^verbatim>\<open>Number.prototype.toString\<close>, \<^verbatim>\<open>BigInt\<close> (\<open>None\<close>: it throws SyntaxError) and
  \<^verbatim>\<open>new RegExp\<close> (the \<^verbatim>\<open>source\<close> of the compiled pattern; \<open>None\<close>: it throws
  SyntaxError). The last two are what the runtime does with a plain object whose
  prototype has been replaced, where the definitions below do not say it themselves: its
  coercion to a property key, and an assignment to a key it does not own, both of which
  walk the replaced prototype chain (\<open>None\<close>: it throws TypeError).
\<close>

record 'n host =
  parseFloat :: "string \<Rightarrow> 'n"
  negate :: "'n \<Rightarrow> 'n"
  numberToString :: "'n \<Rightarrow> string"
  BigInt :: "string \<Rightarrow> int option"
  RegExp :: "string \<Rightarrow> string option"
  inheritedToString :: "'n jsobject \<Rightarrow> string option"
  inheritedAssign :: "'n jsobject \<Rightarrow> string \<Rightarrow> 'n jsvalue \<Rightarrow> 'n jsobject option"

section \<open>Strings, arrays and objects of the runtime\<close>

text \<open>\<^verbatim>\<open>String.prototype.slice(start, end)\<close>: a negative index counts from the end.\<close>

definition slice :: "int \<Rightarrow> int \<Rightarrow> string \<Rightarrow> string" where
  "slice start end' s =
     (let len = int (length s);
          from = (if start < 0 then max (len + start) 0 else min start len);
          to = (if end' < 0 then max (len + end') 0 else min end' len)
      in take (nat (to - from)) (drop (nat from) s))"

text \<open>\<^verbatim>\<open>Array.prototype.join(separator)\<close> on an array of strings.\<close>

fun join :: "string \<Rightarrow> string list \<Rightarrow> string" where
  "join sep [] = []"
| "join sep [x] = x"
| "join sep (x # y # ys) = x @ sep @ join sep (y # ys)"

text \<open>\<^verbatim>\<open>BigInt.prototype.toString()\<close>: the decimal digits, with a sign when negative.\<close>

fun natToString :: "nat \<Rightarrow> string" where
  "natToString n =
     (if n < 10 then [''0123456789'' ! n]
      else natToString (n div 10) @ [''0123456789'' ! (n mod 10)])"

declare natToString.simps [simp del]

definition bigintToString :: "int \<Rightarrow> string" where
  "bigintToString i = (if i < 0 then ''-'' @ natToString (nat (- i)) else natToString (nat i))"

text \<open>
  \<^verbatim>\<open>xs.map(f)\<close> and \<^verbatim>\<open>xs.reduce(f, init)\<close> with a callback that may throw: the
  elements are visited in order and the first exception ends the loop.
\<close>

fun mapE :: "('a \<Rightarrow> error + 'b) \<Rightarrow> 'a list \<Rightarrow> error + 'b list" where
  "mapE f [] = Inr []"
| "mapE f (x # xs) =
     (case f x of
        Inl e \<Rightarrow> Inl e
      | Inr y \<Rightarrow> (case mapE f xs of Inl e \<Rightarrow> Inl e | Inr ys \<Rightarrow> Inr (y # ys)))"

fun reduceE :: "('b \<Rightarrow> 'a \<Rightarrow> error + 'b) \<Rightarrow> 'a list \<Rightarrow> 'b \<Rightarrow> error + 'b" where
  "reduceE f [] acc = Inr acc"
| "reduceE f (x # xs) acc =
     (case f acc x of Inl e \<Rightarrow> Inl e | Inr acc' \<Rightarrow> reduceE f xs acc')"

text \<open>
  The coercion of a value to a property key (ToPropertyKey, which for these values is
  ToString), applied by \<^verbatim>\<open>acc[key] = v\<close> to a key that is not yet a string. An array
  joins the texts of its elements, \<^verbatim>\<open>undefined\<close> counting as the empty text. A plain
  object is asked for its \<^verbatim>\<open>toString\<close>. When it has a property of its own under that
  name, the property holds a value of the resolver, which is not callable, the
  \<^verbatim>\<open>valueOf\<close> it has or inherits does not give a primitive either, and the coercion
  throws TypeError. Otherwise, with the prototype \<^verbatim>\<open>{}\<close> gave it, the inherited method
  answers \<^verbatim>\<open>[object Object]\<close>. With an array for prototype the method is
  \<^verbatim>\<open>Array.prototype.toString\<close>, which calls \<^verbatim>\<open>join\<close>; the object inherits the length
  and the elements of the array, so the text is the text of the array, unless the object
  has a \<^verbatim>\<open>join\<close> of its own (not callable: the answer is \<^verbatim>\<open>[object Object]\<close>) or a
  length or an element of its own (left to the runtime). With any other prototype the
  answer is the runtime's.
\<close>

fun ToString :: "'n host \<Rightarrow> 'n jsvalue \<Rightarrow> error + string"
and elementTexts :: "'n host \<Rightarrow> 'n jsvalue list \<Rightarrow> error + string list" where
  "ToString h (JSNumber x) = Inr (numberToString h x)"
| "ToString h (JSBigInt i) = Inr (bigintToString i)"
| "ToString h (JSString s) = Inr s"
| "ToString h (JSRegExp src) = Inr (''/'' @ src @ ''/'')"
| "ToString h (JSBoolean b) = Inr (if b then ''true'' else ''false'')"
| "ToString h (JSArray vs) =
     (case elementTexts h vs of
        Inl e \<Rightarrow> Inl e
      | Inr texts \<Rightarrow> Inr (join '','' texts))"
| "ToString h (JSObject (PlainObject proto own)) =
     (if ''toString'' \<in> set (map fst own) then Inl TypeError
      else case proto of
             None \<Rightarrow> Inr ''[object Object]''
           | Some (JSArray vs) \<Rightarrow>
               if ''join'' \<in> set (map fst own) then Inr ''[object Object]''
               else if list_ex (\<lambda>key. key \<in> set (map fst own))
                         (''length'' # map natToString [0..<length vs])
               then (case inheritedToString h (PlainObject proto own) of
                       None \<Rightarrow> Inl TypeError
                     | Some text \<Rightarrow> Inr text)
               else (case elementTexts h vs of
                       Inl e \<Rightarrow> Inl e
                     | Inr texts \<Rightarrow> Inr (join '','' texts))
           | Some replaced \<Rightarrow>
               (case inheritedToString h (PlainObject proto own) of
                  None \<Rightarrow> Inl TypeError
                | Some text \<Rightarrow> Inr text))"
| "ToString h JSUndefined = Inr ''undefined''"
| "elementTexts h [] = Inr []"
| "elementTexts h (v # vs) =
     (case (if v = JSUndefined then Inr [] else ToString h v) of
        Inl e \<Rightarrow> Inl e
      | Inr text \<Rightarrow>
          (case elementTexts h vs of Inl e \<Rightarrow> Inl e | Inr texts \<Rightarrow> Inr (text # texts)))"

text \<open>Whether a value is an object, as against a primitive.\<close>

fun isObject :: "'n jsvalue \<Rightarrow> bool" where
  "isObject (JSArray vs) = True"
| "isObject (JSObject ob) = True"
| "isObject (JSRegExp src) = True"
| "isObject v = False"

text \<open>Whether a pattern is on the prototype chain of a value, the value itself included.\<close>

fun inheritsRegExp :: "'n jsvalue \<Rightarrow> bool" where
  "inheritsRegExp (JSRegExp src) = True"
| "inheritsRegExp (JSObject (PlainObject (Some v) own)) = inheritsRegExp v"
| "inheritsRegExp v = False"

text \<open>
  \<^verbatim>\<open>acc[key] = v\<close> on a plain object. A property the object owns is overwritten
  where it stands. For the key \<^verbatim>\<open>__proto__\<close>, which no object of the resolver owns, the
  assignment finds the accessor of \<^verbatim>\<open>Object.prototype\<close> at the end of the prototype
  chain and calls its setter, which replaces the prototype when \<open>v\<close> is an object,
  does nothing when it is a primitive, and creates no property either way. Any other key
  is created: what the chain holds under it, in the plain objects and arrays on it and
  in \<^verbatim>\<open>Object.prototype\<close> and \<^verbatim>\<open>Array.prototype\<close>, is writable data. With a pattern
  on the chain this is left to the runtime: \<^verbatim>\<open>RegExp.prototype\<close> has accessors without a
  setter, under whose names the assignment throws TypeError in strict code.
\<close>

definition setProperty ::
    "'n host \<Rightarrow> 'n jsobject \<Rightarrow> string \<Rightarrow> 'n jsvalue \<Rightarrow> error + 'n jsobject" where
  "setProperty h acc key v =
     (if key \<in> set (map fst (ownProperties acc))
      then Inr (PlainObject (prototype acc) (AList.update key v (ownProperties acc)))
      else if key = ''__proto__''
      then Inr (if isObject v then PlainObject (Some v) (ownProperties acc) else acc)
      else if inheritsRegExp (JSObject acc)
      then (case inheritedAssign h acc key v of
              None \<Rightarrow> Inl TypeError
            | Some acc' \<Rightarrow> Inr acc')
      else Inr (PlainObject (prototype acc) (AList.update key v (ownProperties acc))))"

section \<open>The resolver\<close>

record mappedSpan =
  canBeResolved :: bool
  stringLiteral :: string

text \<open>
  The eight functions of index.ts, in mutual recursion as there. The first argument is
  the call depth left; each call passes one less to the calls it makes, which is the
  measure of the termination proof.
\<close>

function resolveToLiteral ::
    "nat \<Rightarrow> 'n host \<Rightarrow> node \<Rightarrow> 'n program \<Rightarrow> error + 'n ResolverResult"
and resolvePrefixUnaryExpressionToLiteral ::
    "nat \<Rightarrow> 'n host \<Rightarrow> prefixUnaryOperator \<Rightarrow> node \<Rightarrow> 'n program \<Rightarrow> error + 'n ResolverResult"
and resolveSymbolToLiteral ::
    "nat \<Rightarrow> 'n host \<Rightarrow> symbol \<Rightarrow> 'n program \<Rightarrow> error + 'n ResolverResult"
and resolveTypeToLiteral ::
    "nat \<Rightarrow> 'n host \<Rightarrow> 'n tsType \<Rightarrow> 'n program \<Rightarrow> error + 'n ResolverResult"
and resolveObjectTypeToLiteral ::
    "nat \<Rightarrow> 'n host \<Rightarrow> 'n tsType \<Rightarrow> 'n program \<Rightarrow> error + 'n ResolverResult"
and resolveTypeReferenceToLiteral ::
    "nat \<Rightarrow> 'n host \<Rightarrow> 'n tsType \<Rightarrow> 'n program \<Rightarrow> error + 'n ResolverResult"
and resolveTemplateExpressionToLiteral ::
    "nat \<Rightarrow> 'n host \<Rightarrow> string \<Rightarrow> templateSpan list \<Rightarrow> 'n program \<Rightarrow> error + 'n ResolverResult"
and mapTemplateSpan ::
    "nat \<Rightarrow> 'n host \<Rightarrow> templateSpan \<Rightarrow> 'n program \<Rightarrow> error + mappedSpan"
where
  "resolveToLiteral 0 h expr program = Inl RangeError"
| "resolveToLiteral (Suc d) h expr program =
     (case expr of
        TemplateExpression head templateSpans \<Rightarrow>
          resolveTemplateExpressionToLiteral d h head templateSpans program
      | NumericLiteral text \<Rightarrow> Inr (ResNumericLiteral (parseFloat h text))
      | BigIntLiteral text \<Rightarrow>
          (case BigInt h (slice 0 (- 1) text) of
             None \<Rightarrow> Inl SyntaxError
           | Some i \<Rightarrow> Inr (ResBigIntLiteral i))
      | StringLiteral text \<Rightarrow> Inr (ResStringLiteral text)
      | NoSubstitutionTemplateLiteral text \<Rightarrow> Inr (ResStringLiteral text)
      | RegularExpressionLiteral text \<Rightarrow>
          (case RegExp h (slice 1 (- 1) text) of
             None \<Rightarrow> Inl SyntaxError
           | Some r \<Rightarrow> Inr (ResRegularExpressionLiteral r))
      | TrueKeyword \<Rightarrow> Inr ResTrueKeyword
      | FalseKeyword \<Rightarrow> Inr ResFalseKeyword
      | PrefixUnaryExpression operator operand \<Rightarrow>
          resolvePrefixUnaryExpressionToLiteral d h operator operand program
      | ArrayLiteralExpression elements \<Rightarrow>
          (case mapE (\<lambda>element. resolveToLiteral d h element program) elements of
             Inl e \<Rightarrow> Inl e
           | Inr results \<Rightarrow> Inr (ResArrayLiteralExpression (map resultValue results)))
      | ParenthesizedExpression expression \<Rightarrow> resolveToLiteral d h expression program
      | ComputedPropertyName expression \<Rightarrow> resolveToLiteral d h expression program
      | VariableDeclaration initializer \<Rightarrow>
          (case initializer of
             Some init \<Rightarrow> resolveToLiteral d h init program
           | None \<Rightarrow> Inr ResUnresolved)
      | AsExpression expression \<Rightarrow> resolveToLiteral d h expression program
      | ObjectLiteralExpression properties \<Rightarrow>
          (case reduceE
                  (\<lambda>acc prop.
                     case prop of
                       PropertyAssignment name initializer \<Rightarrow>
                         (case resolveToLiteral d h name program of
                            Inl e \<Rightarrow> Inl e
                          | Inr key \<Rightarrow>
                              (case resolveToLiteral d h initializer program of
                                 Inl e \<Rightarrow> Inl e
                               | Inr val \<Rightarrow>
                                   (case ToString h (resultValue key) of
                                      Inl e \<Rightarrow> Inl e
                                    | Inr keyText \<Rightarrow>
                                        setProperty h acc keyText (resultValue val))))
                     | _ \<Rightarrow> Inr acc)
                  properties (PlainObject None []) of
             Inl e \<Rightarrow> Inl e
           | Inr acc \<Rightarrow> Inr (ResObjectLiteralExpression acc))
      | Identifier pos escapedText \<Rightarrow>
          (let symbol = getSymbolAtLocation program expr;
               symbol = (case symbol of
                           Some s \<Rightarrow>
                             if symbol_flags s = SymbolFlags_Alias
                             then Some (getAliasedSymbol program s) else Some s
                         | None \<Rightarrow> None)
           in case symbol of
                None \<Rightarrow> Inr (ResStringLiteral escapedText)
              | Some s \<Rightarrow> resolveSymbolToLiteral d h s program)
      | OtherNode \<Rightarrow> Inr ResUnresolved)"
| "resolvePrefixUnaryExpressionToLiteral 0 h operator operand program = Inl RangeError"
| "resolvePrefixUnaryExpressionToLiteral (Suc d) h operator operand program =
     (case operator of
        MinusToken \<Rightarrow>
          (case resolveToLiteral d h operand program of
             Inl e \<Rightarrow> Inl e
           | Inr result \<Rightarrow>
               (case result of
                  ResNumericLiteral x \<Rightarrow> Inr (ResNumericLiteral (negate h x))
                | _ \<Rightarrow> Inr ResUnresolved))
      | _ \<Rightarrow> Inr ResUnresolved)"
| "resolveSymbolToLiteral 0 h symbol program = Inl RangeError"
| "resolveSymbolToLiteral (Suc d) h symbol program =
     (if symbol_flags symbol = SymbolFlags_Property
      then Inr (ResStringLiteral (escapedName symbol))
      else if symbol_flags symbol = SymbolFlags_ObjectLiteral
      then (case valueDeclaration symbol of
              Some declaration \<Rightarrow> resolveToLiteral d h declaration program
            | None \<Rightarrow> resolveTypeToLiteral d h (getTypeOfSymbol program symbol) program)
      else if symbol_flags symbol = SymbolFlags_BlockScopedVariable
      then (case valueDeclaration symbol of
              Some declaration \<Rightarrow> resolveToLiteral d h declaration program
            | None \<Rightarrow> resolveTypeToLiteral d h (getTypeOfSymbol program symbol) program)
      else resolveTypeToLiteral d h (getTypeOfSymbol program symbol) program)"
| "resolveTypeToLiteral 0 h typeObject program = Inl RangeError"
| "resolveTypeToLiteral (Suc d) h typeObject program =
     (if type_flags typeObject = TypeFlags_StringLiteral
      then Inr (ResStringLiteral (StringLiteralType_value typeObject))
      else if type_flags typeObject = TypeFlags_NumberLiteral
      then Inr (ResNumericLiteral (NumberLiteralType_value typeObject))
      else if type_flags typeObject = TypeFlags_Object
      then resolveObjectTypeToLiteral d h typeObject program
      else Inr ResUnresolved)"
| "resolveObjectTypeToLiteral 0 h typeObject program = Inl RangeError"
| "resolveObjectTypeToLiteral (Suc d) h typeObject program =
     (if objectFlags typeObject = ObjectFlags_Reference
      then resolveTypeReferenceToLiteral d h typeObject program
      else (case type_symbol typeObject of
              Some symbol \<Rightarrow> resolveSymbolToLiteral d h symbol program
            | None \<Rightarrow> Inr ResUnresolved))"
| "resolveTypeReferenceToLiteral 0 h typeObject program = Inl RangeError"
| "resolveTypeReferenceToLiteral (Suc d) h typeObject program =
     (case mapE (\<lambda>arg. resolveTypeToLiteral d h arg program)
             (getTypeArguments program typeObject) of
        Inl e \<Rightarrow> Inl e
      | Inr results \<Rightarrow> Inr (ResArrayLiteralExpression (map resultValue results)))"
| "resolveTemplateExpressionToLiteral 0 h head templateSpans program = Inl RangeError"
| "resolveTemplateExpressionToLiteral (Suc d) h head templateSpans program =
     (case mapE (\<lambda>span. mapTemplateSpan d h span program) templateSpans of
        Inl e \<Rightarrow> Inl e
      | Inr mappedSpans \<Rightarrow>
          if list_all canBeResolved mappedSpans
          then Inr (ResStringLiteral (head @ join [] (map stringLiteral mappedSpans)))
          else Inr ResUnresolved)"
| "mapTemplateSpan 0 h span program = Inl RangeError"
| "mapTemplateSpan (Suc d) h span program =
     (case span of
        TemplateSpan expression literal_text \<Rightarrow>
          (case resolveToLiteral d h expression program of
             Inl e \<Rightarrow> Inl e
           | Inr exprResult \<Rightarrow>
               Inr (case exprResult of
                      ResStringLiteral s \<Rightarrow>
                        \<lparr>canBeResolved = True, stringLiteral = s @ literal_text\<rparr>
                    | ResNumericLiteral x \<Rightarrow>
                        \<lparr>canBeResolved = True,
                         stringLiteral = numberToString h x @ literal_text\<rparr>
                    | ResBigIntLiteral i \<Rightarrow>
                        \<lparr>canBeResolved = True,
                         stringLiteral = bigintToString i @ literal_text\<rparr>
                    | ResTrueKeyword \<Rightarrow>
                        \<lparr>canBeResolved = True, stringLiteral = ''true'' @ literal_text\<rparr>
                    | ResFalseKeyword \<Rightarrow>
                        \<lparr>canBeResolved = True, stringLiteral = ''false'' @ literal_text\<rparr>
                    | _ \<Rightarrow> \<lparr>canBeResolved = False, stringLiteral = []\<rparr>)))"
  apply pat_completeness
  apply (simp_all only: prod.inject sum.inject nat.inject nat.distinct sum.distinct simp_thms)
  done

termination
  apply (relation "measure (case_sum (case_sum (case_sum fst fst) (case_sum fst fst))
                                     (case_sum (case_sum fst fst) (case_sum fst fst)))")
  apply simp_all
  done

section \<open>The specification's notions\<close>

text \<open>
  The textual form the specification gives a resolved span of a template (section 4.5):
  a text as it is, a number or an arbitrary-precision integer in its canonical decimal
  form, a boolean as \<^verbatim>\<open>true\<close> or \<^verbatim>\<open>false\<close>; nothing else has one.
\<close>

fun spec_stringified :: "'n host \<Rightarrow> 'n ResolverResult \<Rightarrow> string option" where
  "spec_stringified h (ResStringLiteral s) = Some s"
| "spec_stringified h (ResNumericLiteral x) = Some (numberToString h x)"
| "spec_stringified h (ResBigIntLiteral i) = Some (bigintToString i)"
| "spec_stringified h ResTrueKeyword = Some ''true''"
| "spec_stringified h ResFalseKeyword = Some ''false''"
| "spec_stringified h (ResRegularExpressionLiteral r) = None"
| "spec_stringified h (ResArrayLiteralExpression vs) = None"
| "spec_stringified h (ResObjectLiteralExpression ob) = None"
| "spec_stringified h ResUnresolved = None"

text \<open>
  The body of a pattern literal, "with surrounding delimiters stripped" (section 4.1):
  the text between the opening slash and the closing slash. The closing slash is the
  last one of the literal, the flags that may follow it being letters.
\<close>

definition spec_patternBody :: "string \<Rightarrow> string" where
  "spec_patternBody text =
     drop 1 (rev (drop 1 (dropWhile (\<lambda>c. c \<noteq> CHR ''/'') (rev text))))"





text \<open>
  The entries the plain property assignments of an object literal contribute (section
  4.3), in source order: the key resolved and coerced to text, with the value of the
  initializer. Members of any other kind contribute nothing.
\<close>

fun spec_entries ::
  "nat \<Rightarrow> 'n host \<Rightarrow> 'n program \<Rightarrow> objectLiteralElement list \<Rightarrow> (string \<times> 'n jsvalue) list" where
  "spec_entries d h p [] = []"
| "spec_entries d h p (element # rest) =
     (case element of
        PropertyAssignment name initializer \<Rightarrow>
          (case (resolveToLiteral d h name p, resolveToLiteral d h initializer p) of
             (Inr key, Inr val) \<Rightarrow>
               (case ToString h (resultValue key) of
                  Inr keyText \<Rightarrow> [(keyText, resultValue val)]
                | Inl e \<Rightarrow> [])
           | _ \<Rightarrow> [])
      | _ \<Rightarrow> []) @ spec_entries d h p rest"

text \<open>
  A node under which the resolver meets no identifier: the members of an object literal
  that are not plain property assignments are never looked into.
\<close>

fun identifierFree :: "node \<Rightarrow> bool"
and identifierFreeSpan :: "templateSpan \<Rightarrow> bool"
and identifierFreeElement :: "objectLiteralElement \<Rightarrow> bool" where
  "identifierFree (TemplateExpression head spans) = list_all identifierFreeSpan spans"
| "identifierFree (PrefixUnaryExpression operator operand) = identifierFree operand"
| "identifierFree (ArrayLiteralExpression elements) = list_all identifierFree elements"
| "identifierFree (ParenthesizedExpression e) = identifierFree e"
| "identifierFree (ComputedPropertyName e) = identifierFree e"
| "identifierFree (VariableDeclaration initializer) =
     (case initializer of None \<Rightarrow> True | Some e \<Rightarrow> identifierFree e)"
| "identifierFree (AsExpression e) = identifierFree e"
| "identifierFree (ObjectLiteralExpression properties) =
     list_all identifierFreeElement properties"
| "identifierFree (Identifier pos name) = False"
| "identifierFree (NumericLiteral text) = True"
| "identifierFree (BigIntLiteral text) = True"
| "identifierFree (StringLiteral text) = True"
| "identifierFree (NoSubstitutionTemplateLiteral text) = True"
| "identifierFree (RegularExpressionLiteral text) = True"
| "identifierFree TrueKeyword = True"
| "identifierFree FalseKeyword = True"
| "identifierFree OtherNode = True"
| "identifierFreeSpan (TemplateSpan e text) = identifierFree e"
| "identifierFreeElement (PropertyAssignment name initializer) =
     (identifierFree name \<and> identifierFree initializer)"
| "identifierFreeElement (ShorthandPropertyAssignment name) = True"
| "identifierFreeElement (SpreadAssignment e) = True"
| "identifierFreeElement (MethodDeclaration name) = True"
| "identifierFreeElement (GetAccessor name) = True"
| "identifierFreeElement (SetAccessor name) = True"

section \<open>Inputs for the examples\<close>

text \<open>
  A runtime whose numbers are the integers: exact on the decimal integer literals of the
  examples, which is all they use of it. Its \<^verbatim>\<open>RegExp\<close> compiles every text. No
  example asks it about an object with a replaced prototype.
\<close>

definition parseDigits :: "string \<Rightarrow> nat" where
  "parseDigits s = foldl (\<lambda>acc c. 10 * acc + (of_char c - 48)) 0 s"

definition integerHost :: "int host" where
  "integerHost =
     \<lparr>parseFloat = (\<lambda>s. int (parseDigits s)),
      negate = uminus,
      numberToString = bigintToString,
      BigInt = (\<lambda>s. if list_all (\<lambda>c. c \<in> set ''0123456789'') s
                     then Some (int (parseDigits s)) else None),
      RegExp = Some,
      inheritedToString = (\<lambda>ob. None),
      inheritedAssign = (\<lambda>ob key v. None)\<rparr>"

definition anyType :: "int tsType" where
  "anyType =
     \<lparr>type_id = 0, type_flags = TypeFlags_Any, objectFlags = 0,
      StringLiteralType_value = [], NumberLiteralType_value = 0, type_symbol = None\<rparr>"

text \<open>A semantic model that binds no identifier.\<close>

definition noSymbols :: "int program" where
  "noSymbols =
     \<lparr>getSymbolAtLocation = (\<lambda>node. None),
      getAliasedSymbol = (\<lambda>s. s),
      getTypeOfSymbol = (\<lambda>s. anyType),
      getTypeArguments = (\<lambda>t. [])\<rparr>"

text \<open>
  The model of \<^verbatim>\<open>function f() {} f;\<close>: the identifier of the second statement is
  bound to the symbol of the function, whose type is an anonymous object type that
  carries the same symbol.
\<close>

definition functionSymbol :: symbol where
  "functionSymbol =
     \<lparr>symbol_id = 1, symbol_flags = SymbolFlags_Function, escapedName = ''f'',
      valueDeclaration = Some OtherNode\<rparr>"

definition functionType :: "int tsType" where
  "functionType =
     \<lparr>type_id = 1, type_flags = TypeFlags_Object, objectFlags = ObjectFlags_Anonymous,
      StringLiteralType_value = [], NumberLiteralType_value = 0,
      type_symbol = Some functionSymbol\<rparr>"

definition functionProgram :: "int program" where
  "functionProgram =
     \<lparr>getSymbolAtLocation =
        (\<lambda>node. if node = Identifier 17 ''f'' then Some functionSymbol else None),
      getAliasedSymbol = (\<lambda>s. s),
      getTypeOfSymbol = (\<lambda>s. if symbol_id s = 1 then functionType else anyType),
      getTypeArguments = (\<lambda>t. [])\<rparr>"







text \<open>
  The tuple types of \<^verbatim>\<open>[true] as const\<close> (type 1), of
  \<^verbatim>\<open>['a', 1] as const\<close> (type 4) and of \<^verbatim>\<open>[] as const\<close> (type 6), with the literal
  types of their members.
\<close>

definition emptyTupleType :: "int tsType" where
  "emptyTupleType =
     \<lparr>type_id = 6, type_flags = TypeFlags_Object,
      objectFlags = ObjectFlags_Reference + ObjectFlags_Tuple,
      StringLiteralType_value = [], NumberLiteralType_value = 0, type_symbol = None\<rparr>"

definition trueType :: "int tsType" where
  "trueType =
     \<lparr>type_id = 2, type_flags = TypeFlags_BooleanLiteral, objectFlags = 0,
      StringLiteralType_value = [], NumberLiteralType_value = 0, type_symbol = None\<rparr>"

definition booleanTupleType :: "int tsType" where
  "booleanTupleType =
     \<lparr>type_id = 1, type_flags = TypeFlags_Object, objectFlags = ObjectFlags_Reference,
      StringLiteralType_value = [], NumberLiteralType_value = 0, type_symbol = None\<rparr>"

definition textType :: "int tsType" where
  "textType =
     \<lparr>type_id = 3, type_flags = TypeFlags_StringLiteral, objectFlags = 0,
      StringLiteralType_value = ''a'', NumberLiteralType_value = 0, type_symbol = None\<rparr>"

definition numberType :: "int tsType" where
  "numberType =
     \<lparr>type_id = 5, type_flags = TypeFlags_NumberLiteral, objectFlags = 0,
      StringLiteralType_value = [], NumberLiteralType_value = 1, type_symbol = None\<rparr>"



definition tupleProgram :: "int program" where
  "tupleProgram =
     \<lparr>getSymbolAtLocation = (\<lambda>node. None),
      getAliasedSymbol = (\<lambda>s. s),
      getTypeOfSymbol = (\<lambda>s. anyType),
      getTypeArguments =
        (\<lambda>t. if type_id t = 1 then [trueType]
             else if type_id t = 4 then [textType, numberType]
             else if type_id t = 7 then [emptyTupleType, textType, trueType] else [])\<rparr>"

section \<open>Unfolding the resolver one call at a time\<close>

lemmas resolver_Suc = resolveToLiteral.simps(2) resolvePrefixUnaryExpressionToLiteral.simps(2)
  resolveSymbolToLiteral.simps(2) resolveTypeToLiteral.simps(2) resolveObjectTypeToLiteral.simps(2)
  resolveTypeReferenceToLiteral.simps(2) resolveTemplateExpressionToLiteral.simps(2) mapTemplateSpan.simps(2)

declare resolver_Suc [simp del]

lemma resolveToLiteral_Template:
  "resolveToLiteral (Suc d) h (TemplateExpression head spans) p =
     resolveTemplateExpressionToLiteral d h head spans p"
  by (simp add: resolveToLiteral.simps(2))

lemma resolveToLiteral_Numeric:
  "resolveToLiteral (Suc d) h (NumericLiteral text) p = Inr (ResNumericLiteral (parseFloat h text))"
  by (simp add: resolveToLiteral.simps(2))

lemma resolveToLiteral_BigInt:
  "resolveToLiteral (Suc d) h (BigIntLiteral text) p =
     (case BigInt h (slice 0 (- 1) text) of
        None \<Rightarrow> Inl SyntaxError
      | Some i \<Rightarrow> Inr (ResBigIntLiteral i))"
  by (simp add: resolveToLiteral.simps(2))

lemma resolveToLiteral_String:
  "resolveToLiteral (Suc d) h (StringLiteral text) p = Inr (ResStringLiteral text)"
  by (simp add: resolveToLiteral.simps(2))

lemma resolveToLiteral_NoSubstitution:
  "resolveToLiteral (Suc d) h (NoSubstitutionTemplateLiteral text) p = Inr (ResStringLiteral text)"
  by (simp add: resolveToLiteral.simps(2))

lemma resolveToLiteral_RegExp:
  "resolveToLiteral (Suc d) h (RegularExpressionLiteral text) p =
     (case RegExp h (slice 1 (- 1) text) of
        None \<Rightarrow> Inl SyntaxError
      | Some r \<Rightarrow> Inr (ResRegularExpressionLiteral r))"
  by (simp add: resolveToLiteral.simps(2))

lemma resolveToLiteral_True:
  "resolveToLiteral (Suc d) h TrueKeyword p = Inr ResTrueKeyword"
  by (simp add: resolveToLiteral.simps(2))

lemma resolveToLiteral_False:
  "resolveToLiteral (Suc d) h FalseKeyword p = Inr ResFalseKeyword"
  by (simp add: resolveToLiteral.simps(2))

lemma resolveToLiteral_Prefix:
  "resolveToLiteral (Suc d) h (PrefixUnaryExpression operator operand) p =
     resolvePrefixUnaryExpressionToLiteral d h operator operand p"
  by (simp add: resolveToLiteral.simps(2))

lemma resolveToLiteral_Array:
  "resolveToLiteral (Suc d) h (ArrayLiteralExpression elements) p =
     (case mapE (\<lambda>element. resolveToLiteral d h element p) elements of
        Inl e \<Rightarrow> Inl e
      | Inr results \<Rightarrow> Inr (ResArrayLiteralExpression (map resultValue results)))"
  by (simp add: resolveToLiteral.simps(2))

lemma resolveToLiteral_Parenthesized:
  "resolveToLiteral (Suc d) h (ParenthesizedExpression e) p = resolveToLiteral d h e p"
  by (simp add: resolveToLiteral.simps(2))

lemma resolveToLiteral_Computed:
  "resolveToLiteral (Suc d) h (ComputedPropertyName e) p = resolveToLiteral d h e p"
  by (simp add: resolveToLiteral.simps(2))

lemma resolveToLiteral_Declaration:
  "resolveToLiteral (Suc d) h (VariableDeclaration initializer) p =
     (case initializer of
        Some init \<Rightarrow> resolveToLiteral d h init p
      | None \<Rightarrow> Inr ResUnresolved)"
  by (simp add: resolveToLiteral.simps(2))

lemma resolveToLiteral_As:
  "resolveToLiteral (Suc d) h (AsExpression e) p = resolveToLiteral d h e p"
  by (simp add: resolveToLiteral.simps(2))

lemma resolveToLiteral_Object:
  "resolveToLiteral (Suc d) h (ObjectLiteralExpression properties) p =
     (case reduceE
             (\<lambda>acc prop.
                case prop of
                  PropertyAssignment name initializer \<Rightarrow>
                    (case resolveToLiteral d h name p of
                       Inl e \<Rightarrow> Inl e
                     | Inr key \<Rightarrow>
                         (case resolveToLiteral d h initializer p of
                            Inl e \<Rightarrow> Inl e
                          | Inr val \<Rightarrow>
                              (case ToString h (resultValue key) of
                                 Inl e \<Rightarrow> Inl e
                               | Inr keyText \<Rightarrow>
                                   setProperty h acc keyText (resultValue val))))
                | _ \<Rightarrow> Inr acc)
             properties (PlainObject None []) of
        Inl e \<Rightarrow> Inl e
      | Inr acc \<Rightarrow> Inr (ResObjectLiteralExpression acc))"
  by (simp add: resolveToLiteral.simps(2))

lemma resolveToLiteral_Identifier:
  "resolveToLiteral (Suc d) h (Identifier pos escapedText) p =
     (case getSymbolAtLocation p (Identifier pos escapedText) of
        None \<Rightarrow> Inr (ResStringLiteral escapedText)
      | Some s \<Rightarrow>
          resolveSymbolToLiteral d h
            (if symbol_flags s = SymbolFlags_Alias then getAliasedSymbol p s else s) p)"
  by (simp add: resolveToLiteral.simps(2) Let_def split: option.splits)

lemma resolveToLiteral_Other:
  "resolveToLiteral (Suc d) h OtherNode p = Inr ResUnresolved"
  by (simp add: resolveToLiteral.simps(2))

lemmas resolveToLiteral_unfold =
  resolveToLiteral_Template resolveToLiteral_Numeric resolveToLiteral_BigInt
  resolveToLiteral_String resolveToLiteral_NoSubstitution resolveToLiteral_RegExp
  resolveToLiteral_True resolveToLiteral_False resolveToLiteral_Prefix resolveToLiteral_Array
  resolveToLiteral_Parenthesized resolveToLiteral_Computed resolveToLiteral_Declaration
  resolveToLiteral_As resolveToLiteral_Object resolveToLiteral_Identifier resolveToLiteral_Other

lemmas flags_defs =
  ObjectFlags_Tuple_def SymbolFlags_BlockScopedVariable_def SymbolFlags_Property_def SymbolFlags_Function_def
  SymbolFlags_ObjectLiteral_def SymbolFlags_Alias_def TypeFlags_Any_def
  TypeFlags_StringLiteral_def TypeFlags_NumberLiteral_def TypeFlags_BooleanLiteral_def
  TypeFlags_BigIntLiteral_def TypeFlags_Object_def ObjectFlags_Reference_def
  ObjectFlags_Anonymous_def

section \<open>The outcome does not depend on the call depth left\<close>

lemma mapE_stable:
  assumes "mapE f xs \<noteq> Inl RangeError"
    and "\<And>x. x \<in> set xs \<Longrightarrow> f x \<noteq> Inl RangeError \<Longrightarrow> g x = f x"
  shows "mapE g xs = mapE f xs"
  using assms
proof (induction xs)
  case Nil
  then show ?case by simp
next
  case (Cons x xs)
  show ?case
  proof (cases "f x")
    case (Inl e)
    with Cons.prems(1) have "e \<noteq> RangeError" by auto
    with Inl Cons.prems(2)[of x] show ?thesis by simp
  next
    case (Inr y)
    with Cons.prems(2)[of x] have gx: "g x = Inr y" by simp
    from Inr Cons.prems(1) have "mapE f xs \<noteq> Inl RangeError"
      by (auto split: sum.splits)
    with Cons.IH Cons.prems(2) have "mapE g xs = mapE f xs" by simp
    with Inr gx show ?thesis by simp
  qed
qed

lemma reduceE_stable:
  assumes "reduceE f xs acc \<noteq> Inl RangeError"
    and "\<And>a x. x \<in> set xs \<Longrightarrow> f a x \<noteq> Inl RangeError \<Longrightarrow> g a x = f a x"
  shows "reduceE g xs acc = reduceE f xs acc"
  using assms
proof (induction xs arbitrary: acc)
  case Nil
  then show ?case by simp
next
  case (Cons x xs)
  show ?case
  proof (cases "f acc x")
    case (Inl e)
    with Cons.prems(1) have "e \<noteq> RangeError" by auto
    with Inl Cons.prems(2)[of x acc] show ?thesis by simp
  next
    case (Inr y)
    with Cons.prems(2)[of x acc] have gx: "g acc x = Inr y" by simp
    from Inr Cons.prems(1) have "reduceE f xs y \<noteq> Inl RangeError" by simp
    with Cons.IH[of y] Cons.prems(2) have "reduceE g xs y = reduceE f xs y" by simp
    with Inr gx show ?thesis by simp
  qed
qed



lemma resolveToLiteral_stable_step:
  assumes rec: "\<And>e. resolveToLiteral d h e p \<noteq> Inl RangeError \<Longrightarrow>
                  resolveToLiteral (Suc d) h e p = resolveToLiteral d h e p"
    and pre: "\<And>operator e. resolvePrefixUnaryExpressionToLiteral d h operator e p \<noteq> Inl RangeError \<Longrightarrow>
                  resolvePrefixUnaryExpressionToLiteral (Suc d) h operator e p =
                  resolvePrefixUnaryExpressionToLiteral d h operator e p"
    and sym: "\<And>s. resolveSymbolToLiteral d h s p \<noteq> Inl RangeError \<Longrightarrow>
                  resolveSymbolToLiteral (Suc d) h s p = resolveSymbolToLiteral d h s p"
    and tem: "\<And>hd spans. resolveTemplateExpressionToLiteral d h hd spans p \<noteq> Inl RangeError \<Longrightarrow>
                  resolveTemplateExpressionToLiteral (Suc d) h hd spans p =
                  resolveTemplateExpressionToLiteral d h hd spans p"
    and ok: "resolveToLiteral (Suc d) h e p \<noteq> Inl RangeError"
  shows "resolveToLiteral (Suc (Suc d)) h e p = resolveToLiteral (Suc d) h e p"
proof (cases e)
  case (TemplateExpression hd spans)
  with ok tem show ?thesis by (simp add: resolveToLiteral_unfold)
next
  case (PrefixUnaryExpression operator operand)
  with ok pre show ?thesis by (simp add: resolveToLiteral_unfold)
next
  case (ArrayLiteralExpression elements)
  let ?f = "\<lambda>element. resolveToLiteral d h element p"
  let ?g = "\<lambda>element. resolveToLiteral (Suc d) h element p"
  from ok ArrayLiteralExpression have "mapE ?f elements \<noteq> Inl RangeError"
    by (auto simp add: resolveToLiteral_unfold split: sum.splits)
  then have "mapE ?g elements = mapE ?f elements"
    by (rule mapE_stable) (simp add: rec)
  with ArrayLiteralExpression show ?thesis by (simp add: resolveToLiteral_unfold)
next
  case (ParenthesizedExpression x)
  with ok rec show ?thesis by (simp add: resolveToLiteral_unfold)
next
  case (ComputedPropertyName x)
  with ok rec show ?thesis by (simp add: resolveToLiteral_unfold)
next
  case (VariableDeclaration x)
  with ok rec show ?thesis by (cases x) (simp_all add: resolveToLiteral_unfold)
next
  case (AsExpression x)
  with ok rec show ?thesis by (simp add: resolveToLiteral_unfold)
next
  case (ObjectLiteralExpression properties)
  let ?f = "\<lambda>d acc prop. case prop of
               PropertyAssignment name initializer \<Rightarrow>
                 (case resolveToLiteral d h name p of
                    Inl e \<Rightarrow> Inl e
                  | Inr key \<Rightarrow>
                      (case resolveToLiteral d h initializer p of
                         Inl e \<Rightarrow> Inl e
                       | Inr val \<Rightarrow>
                           (case ToString h (resultValue key) of
                              Inl e \<Rightarrow> Inl e
                            | Inr keyText \<Rightarrow>
                                setProperty h acc keyText (resultValue val))))
             | _ \<Rightarrow> Inr acc"
  from ok ObjectLiteralExpression
  have "reduceE (?f d) properties (PlainObject None []) \<noteq> Inl RangeError"
    by (auto simp add: resolveToLiteral_unfold split: sum.splits)
  then have "reduceE (?f (Suc d)) properties (PlainObject None []) =
             reduceE (?f d) properties (PlainObject None [])"
  proof (rule reduceE_stable)
    fix a x
    assume "?f d a x \<noteq> Inl RangeError"
    then show "?f (Suc d) a x = ?f d a x"
      by (cases x) (auto simp add: rec split: sum.splits)
  qed
  with ObjectLiteralExpression show ?thesis by (simp add: resolveToLiteral_unfold)
next
  case (Identifier pos escapedText)
  with ok sym show ?thesis
    by (auto simp add: resolveToLiteral_unfold Let_def split: option.splits)
qed (simp_all add: resolveToLiteral_unfold)


lemma resolver_stable_Suc:
  "(\<forall>e. resolveToLiteral d h e p \<noteq> Inl RangeError \<longrightarrow>
        resolveToLiteral (Suc d) h e p = resolveToLiteral d h e p) \<and>
   (\<forall>operator e. resolvePrefixUnaryExpressionToLiteral d h operator e p \<noteq> Inl RangeError \<longrightarrow>
        resolvePrefixUnaryExpressionToLiteral (Suc d) h operator e p =
        resolvePrefixUnaryExpressionToLiteral d h operator e p) \<and>
   (\<forall>s. resolveSymbolToLiteral d h s p \<noteq> Inl RangeError \<longrightarrow>
        resolveSymbolToLiteral (Suc d) h s p = resolveSymbolToLiteral d h s p) \<and>
   (\<forall>t. resolveTypeToLiteral d h t p \<noteq> Inl RangeError \<longrightarrow>
        resolveTypeToLiteral (Suc d) h t p = resolveTypeToLiteral d h t p) \<and>
   (\<forall>t. resolveObjectTypeToLiteral d h t p \<noteq> Inl RangeError \<longrightarrow>
        resolveObjectTypeToLiteral (Suc d) h t p = resolveObjectTypeToLiteral d h t p) \<and>
   (\<forall>t. resolveTypeReferenceToLiteral d h t p \<noteq> Inl RangeError \<longrightarrow>
        resolveTypeReferenceToLiteral (Suc d) h t p = resolveTypeReferenceToLiteral d h t p) \<and>
   (\<forall>hd spans. resolveTemplateExpressionToLiteral d h hd spans p \<noteq> Inl RangeError \<longrightarrow>
        resolveTemplateExpressionToLiteral (Suc d) h hd spans p =
        resolveTemplateExpressionToLiteral d h hd spans p) \<and>
   (\<forall>span. mapTemplateSpan d h span p \<noteq> Inl RangeError \<longrightarrow>
        mapTemplateSpan (Suc d) h span p = mapTemplateSpan d h span p)"
proof (induction d)
  case 0
  show ?case by simp
next
  case (Suc d)
  then have hrec: "\<And>e. resolveToLiteral d h e p \<noteq> Inl RangeError \<Longrightarrow>
                  resolveToLiteral (Suc d) h e p = resolveToLiteral d h e p"
    and hpre: "\<And>operator e. resolvePrefixUnaryExpressionToLiteral d h operator e p \<noteq> Inl RangeError \<Longrightarrow>
                  resolvePrefixUnaryExpressionToLiteral (Suc d) h operator e p =
                  resolvePrefixUnaryExpressionToLiteral d h operator e p"
    and hsym: "\<And>s. resolveSymbolToLiteral d h s p \<noteq> Inl RangeError \<Longrightarrow>
                  resolveSymbolToLiteral (Suc d) h s p = resolveSymbolToLiteral d h s p"
    and htyp: "\<And>t. resolveTypeToLiteral d h t p \<noteq> Inl RangeError \<Longrightarrow>
                  resolveTypeToLiteral (Suc d) h t p = resolveTypeToLiteral d h t p"
    and hobj: "\<And>t. resolveObjectTypeToLiteral d h t p \<noteq> Inl RangeError \<Longrightarrow>
                  resolveObjectTypeToLiteral (Suc d) h t p = resolveObjectTypeToLiteral d h t p"
    and href: "\<And>t. resolveTypeReferenceToLiteral d h t p \<noteq> Inl RangeError \<Longrightarrow>
                  resolveTypeReferenceToLiteral (Suc d) h t p = resolveTypeReferenceToLiteral d h t p"
    and htem: "\<And>hd spans. resolveTemplateExpressionToLiteral d h hd spans p \<noteq> Inl RangeError \<Longrightarrow>
                  resolveTemplateExpressionToLiteral (Suc d) h hd spans p =
                  resolveTemplateExpressionToLiteral d h hd spans p"
    and hspn: "\<And>span. mapTemplateSpan d h span p \<noteq> Inl RangeError \<Longrightarrow>
                  mapTemplateSpan (Suc d) h span p = mapTemplateSpan d h span p"
    by blast+
  have c1: "resolveToLiteral (Suc (Suc d)) h e p = resolveToLiteral (Suc d) h e p"
    if "resolveToLiteral (Suc d) h e p \<noteq> Inl RangeError" for e
    using hrec hpre hsym htem that by (rule resolveToLiteral_stable_step)
  have c2: "resolvePrefixUnaryExpressionToLiteral (Suc (Suc d)) h operator e p =
            resolvePrefixUnaryExpressionToLiteral (Suc d) h operator e p"
    if "resolvePrefixUnaryExpressionToLiteral (Suc d) h operator e p \<noteq> Inl RangeError"
    for operator e
    using that hrec[of e]
    by (cases operator)
       (auto simp add: resolvePrefixUnaryExpressionToLiteral.simps(2) split: sum.splits)
  have c3: "resolveSymbolToLiteral (Suc (Suc d)) h s p = resolveSymbolToLiteral (Suc d) h s p"
    if "resolveSymbolToLiteral (Suc d) h s p \<noteq> Inl RangeError" for s
    using that hrec htyp
    by (auto simp add: resolveSymbolToLiteral.simps(2) split: option.splits if_splits)
  have c4: "resolveTypeToLiteral (Suc (Suc d)) h t p = resolveTypeToLiteral (Suc d) h t p"
    if "resolveTypeToLiteral (Suc d) h t p \<noteq> Inl RangeError" for t
    using that hobj
    by (auto simp add: resolveTypeToLiteral.simps(2) split: if_splits)
  have c5: "resolveObjectTypeToLiteral (Suc (Suc d)) h t p = resolveObjectTypeToLiteral (Suc d) h t p"
    if "resolveObjectTypeToLiteral (Suc d) h t p \<noteq> Inl RangeError" for t
    using that href hsym
    by (auto simp add: resolveObjectTypeToLiteral.simps(2) split: if_splits option.splits)
  have c6: "resolveTypeReferenceToLiteral (Suc (Suc d)) h t p =
            resolveTypeReferenceToLiteral (Suc d) h t p"
    if ok: "resolveTypeReferenceToLiteral (Suc d) h t p \<noteq> Inl RangeError" for t
  proof -
    from ok have "mapE (\<lambda>arg. resolveTypeToLiteral d h arg p) (getTypeArguments p t)
                    \<noteq> Inl RangeError"
      by (auto simp add: resolveTypeReferenceToLiteral.simps(2) split: sum.splits)
    then have "mapE (\<lambda>arg. resolveTypeToLiteral (Suc d) h arg p) (getTypeArguments p t) =
               mapE (\<lambda>arg. resolveTypeToLiteral d h arg p) (getTypeArguments p t)"
      by (rule mapE_stable) (simp add: htyp)
    then show ?thesis by (simp add: resolveTypeReferenceToLiteral.simps(2))
  qed
  have c7: "resolveTemplateExpressionToLiteral (Suc (Suc d)) h hd spans p =
            resolveTemplateExpressionToLiteral (Suc d) h hd spans p"
    if ok: "resolveTemplateExpressionToLiteral (Suc d) h hd spans p \<noteq> Inl RangeError"
    for hd spans
  proof -
    from ok have "mapE (\<lambda>span. mapTemplateSpan d h span p) spans \<noteq> Inl RangeError"
      by (auto simp add: resolveTemplateExpressionToLiteral.simps(2) split: sum.splits)
    then have "mapE (\<lambda>span. mapTemplateSpan (Suc d) h span p) spans =
               mapE (\<lambda>span. mapTemplateSpan d h span p) spans"
      by (rule mapE_stable) (simp add: hspn)
    then show ?thesis by (simp add: resolveTemplateExpressionToLiteral.simps(2))
  qed
  have c8: "mapTemplateSpan (Suc (Suc d)) h span p = mapTemplateSpan (Suc d) h span p"
    if "mapTemplateSpan (Suc d) h span p \<noteq> Inl RangeError" for span
  proof (cases span)
    case (TemplateSpan expression literal_text)
    with that hrec[of expression] show ?thesis
      by (auto simp add: mapTemplateSpan.simps(2) split: sum.splits)
  qed
  from c1 c2 c3 c4 c5 c6 c7 c8 show ?case by blast
qed


lemma resolver_stable:
  assumes "resolveToLiteral d h e p \<noteq> Inl RangeError"
  shows "resolveToLiteral (d + k) h e p = resolveToLiteral d h e p"
proof (induction k)
  case 0
  show ?case by simp
next
  case (Suc k)
  with assms have "resolveToLiteral (d + k) h e p \<noteq> Inl RangeError" by simp
  with resolver_stable_Suc[of "d + k" h p]
  have "resolveToLiteral (Suc (d + k)) h e p = resolveToLiteral (d + k) h e p" by blast
  with Suc show ?case by simp
qed

lemma type_stable:
  assumes "resolveTypeToLiteral d h t p \<noteq> Inl RangeError"
  shows "resolveTypeToLiteral (d + k) h t p = resolveTypeToLiteral d h t p"
proof (induction k)
  case 0
  show ?case by simp
next
  case (Suc k)
  with assms have "resolveTypeToLiteral (d + k) h t p \<noteq> Inl RangeError" by simp
  with resolver_stable_Suc[of "d + k" h p]
  have "resolveTypeToLiteral (Suc (d + k)) h t p = resolveTypeToLiteral (d + k) h t p" by blast
  with Suc show ?case by simp
qed

text \<open>
  C9: two invocations of \<^verbatim>\<open>resolveToLiteral\<close> on the same node against the same
  model yield identical results. The resolver has no state to carry from one call to the
  next; the only thing that can differ between two invocations is the room left on the
  call stack, and whenever neither invocation overflows it the two outcomes (the result,
  or the exception of a built-in) are the same.
\<close>

theorem resolveToLiteral_deterministic:
  assumes "resolveToLiteral d h e p \<noteq> Inl RangeError"
    and "resolveToLiteral d' h e p \<noteq> Inl RangeError"
  shows "resolveToLiteral d h e p = resolveToLiteral d' h e p"
proof (cases "d \<le> d'")
  case True
  then obtain k where "d' = d + k" using le_Suc_ex by blast
  with assms(1) show ?thesis by (simp add: resolver_stable)
next
  case False
  then obtain k where "d = d' + k" using le_Suc_ex by (metis nat_le_linear)
  with assms(2) show ?thesis by (simp add: resolver_stable)
qed

theorem resolveToLiteral_deterministic_witness:
  "resolveToLiteral 2 integerHost (ArrayLiteralExpression [StringLiteral ''hello'', NumericLiteral ''123'']) noSymbols \<noteq> Inl RangeError \<and>
   resolveToLiteral 5 integerHost (ArrayLiteralExpression [StringLiteral ''hello'', NumericLiteral ''123'']) noSymbols \<noteq> Inl RangeError \<and>
   resolveToLiteral 2 integerHost (ArrayLiteralExpression [StringLiteral ''hello'', NumericLiteral ''123'']) noSymbols =
   resolveToLiteral 5 integerHost (ArrayLiteralExpression [StringLiteral ''hello'', NumericLiteral ''123'']) noSymbols \<and>
   resolveToLiteral 5 integerHost (ArrayLiteralExpression [StringLiteral ''hello'', NumericLiteral ''123'']) noSymbols =
     Inr (ResArrayLiteralExpression [JSString ''hello'', JSNumber 123])"
proof -
  let ?e = "ArrayLiteralExpression [StringLiteral ''hello'', NumericLiteral ''123'']"
  have a: "resolveToLiteral 2 integerHost ?e noSymbols =
           Inr (ResArrayLiteralExpression [JSString ''hello'', JSNumber 123])"
    by (simp add: numeral_2_eq_2 resolveToLiteral_unfold integerHost_def parseDigits_def)
  then have b: "resolveToLiteral 2 integerHost ?e noSymbols \<noteq> Inl RangeError" by simp
  have c: "resolveToLiteral 5 integerHost ?e noSymbols \<noteq> Inl RangeError"
    by (simp add: eval_nat_numeral resolveToLiteral_unfold integerHost_def parseDigits_def)
  from resolveToLiteral_deterministic[OF b c] a b c show ?thesis by simp
qed

section \<open>Identifiers\<close>

lemma functionSymbol_overflows:
  "resolveSymbolToLiteral d h functionSymbol functionProgram = Inl RangeError"
proof (induction d rule: less_induct)
  case (less d)
  show ?case
  proof (cases d)
    case 0
    then show ?thesis by simp
  next
    case d1: (Suc d1)
    show ?thesis
    proof (cases d1)
      case 0
      with d1 show ?thesis
        by (simp add: resolveSymbolToLiteral.simps(2) functionSymbol_def flags_defs)
    next
      case d2: (Suc d2)
      show ?thesis
      proof (cases d2)
        case 0
        with d1 d2 show ?thesis
          by (simp add: resolveSymbolToLiteral.simps(2) resolveTypeToLiteral.simps(2)
                functionSymbol_def functionProgram_def functionType_def flags_defs)
      next
        case d3: (Suc d3)
        have "d3 < d" using d1 d2 d3 by simp
        then have "resolveSymbolToLiteral d3 h functionSymbol functionProgram = Inl RangeError"
          by (rule less.IH)
        then have "resolveSymbolToLiteral d3 h
                     \<lparr>symbol_id = 1, symbol_flags = 16, escapedName = ''f'',
                      valueDeclaration = Some OtherNode\<rparr> functionProgram = Inl RangeError"
          by (simp add: functionSymbol_def flags_defs)
        with d1 d2 d3 show ?thesis
          by (simp add: resolveSymbolToLiteral.simps(2) resolveTypeToLiteral.simps(2)
                resolveObjectTypeToLiteral.simps(2)
                functionSymbol_def functionProgram_def functionType_def flags_defs)
      qed
    qed
  qed
qed

text \<open>
  C1: \<^verbatim>\<open>resolveToLiteral\<close> terminates and returns a result for every node and
  semantic model, and never throws. It does not: on the reference \<^verbatim>\<open>f\<close> of
  \<^verbatim>\<open>function f() {} f;\<close> the resolver goes from the symbol to its type, from the
  type to the symbol the type carries, which is the same symbol, and so on; whatever room
  the call stack has, the call ends in the engine's RangeError and no result is returned.
\<close>
theorem function_reference_overflows:
  "resolveToLiteral d h (Identifier 17 ''f'') functionProgram = Inl RangeError"
proof (cases d)
  case 0
  then show ?thesis by simp
next
  case (Suc d')
  have "getSymbolAtLocation functionProgram (Identifier 17 ''f'') = Some functionSymbol"
    by (simp add: functionProgram_def)
  moreover have "symbol_flags functionSymbol \<noteq> SymbolFlags_Alias"
    by (simp add: functionSymbol_def flags_defs)
  ultimately show ?thesis using Suc
    by (simp add: resolveToLiteral_Identifier functionSymbol_overflows)
qed

lemma mapE_no_overflow:
  assumes "\<And>x. x \<in> set xs \<Longrightarrow> f x \<noteq> Inl RangeError"
  shows "mapE f xs \<noteq> Inl RangeError"
  using assms
proof (induction xs)
  case Nil
  show ?case by simp
next
  case (Cons x xs)
  then have "f x \<noteq> Inl RangeError" and "mapE f xs \<noteq> Inl RangeError" by simp_all
  then show ?case by (auto split: sum.splits)
qed

lemma reduceE_no_overflow:
  assumes "\<And>a x. x \<in> set xs \<Longrightarrow> f a x \<noteq> Inl RangeError"
  shows "reduceE f xs acc \<noteq> Inl RangeError"
  using assms
proof (induction xs arbitrary: acc)
  case Nil
  show ?case by simp
next
  case (Cons x xs)
  then have "f acc x \<noteq> Inl RangeError" and "\<And>a. reduceE f xs a \<noteq> Inl RangeError"
    by simp_all
  then show ?case by (auto split: sum.splits)
qed

lemma ToString_no_overflow:
  "ToString h v \<noteq> Inl RangeError"
  "elementTexts h vs \<noteq> Inl RangeError"
proof (induction h v and h vs rule: ToString_elementTexts.induct)
  case (10 h v vs)
  show ?case
  proof (cases "v = JSUndefined")
    case True
    with 10 show ?thesis by (auto split: sum.splits)
  next
    case False
    with 10 show ?thesis by (auto split: sum.splits)
  qed
qed (auto split: sum.splits option.splits jsvalue.splits)

lemma setProperty_no_overflow: "setProperty h acc key v \<noteq> Inl RangeError"
  by (simp add: setProperty_def split: option.splits)

lemma size_in_list: "x \<in> set xs \<Longrightarrow> size x \<le> size_list size xs"
  using size_list_estimation'[of x xs "size x" size] by simp

text \<open>
  Identifiers are the only way into that recursion: a node with no identifier under it
  is resolved within a call depth of three times its size plus one, whatever the model.
  It returns a result, or throws the SyntaxError of \<^verbatim>\<open>BigInt\<close> or \<^verbatim>\<open>new RegExp\<close>
  or the TypeError of a property key.
\<close>

lemma identifier_free_no_overflow:
  assumes "identifierFree e" and "3 * size e + 1 \<le> d"
  shows "resolveToLiteral d h e p \<noteq> Inl RangeError"
  using assms
proof (induction d arbitrary: e rule: less_induct)
  case (less d)
  from less.prems(2) obtain d1 where d: "d = Suc d1" by (cases d) simp_all
  show ?case
  proof (cases e)
    case (TemplateExpression head spans)
    with less.prems(2) d obtain d3 where d1: "d1 = Suc (Suc d3)"
      by (cases d1; cases "d1 - 1") simp_all
    have "mapTemplateSpan (Suc d3) h span p \<noteq> Inl RangeError" if span: "span \<in> set spans" for span
    proof (cases span)
      case (TemplateSpan expression literal_text)
      from span have "size span \<le> size_list size spans" by (rule size_in_list)
      with TemplateSpan TemplateExpression less.prems(2) d d1
      have "3 * size expression + 1 \<le> d3" by simp
      moreover from span TemplateSpan TemplateExpression less.prems(1)
      have "identifierFree expression" by (auto simp add: list_all_iff)
      moreover have "d3 < d" using d d1 by simp
      ultimately have "resolveToLiteral d3 h expression p \<noteq> Inl RangeError"
        using less.IH by blast
      with TemplateSpan show ?thesis
        by (auto simp add: mapTemplateSpan.simps(2) split: sum.splits)
    qed
    then have "mapE (\<lambda>span. mapTemplateSpan (Suc d3) h span p) spans \<noteq> Inl RangeError"
      by (rule mapE_no_overflow)
    with TemplateExpression d d1 show ?thesis
      by (auto simp add: resolveToLiteral_Template resolveTemplateExpressionToLiteral.simps(2)
            split: sum.splits)
  next
    case (PrefixUnaryExpression operator operand)
    with less.prems(2) d obtain d2 where d1: "d1 = Suc d2" by (cases d1) simp_all
    from PrefixUnaryExpression less.prems d d1
    have "identifierFree operand" "3 * size operand + 1 \<le> d2" "d2 < d" by simp_all
    then have "resolveToLiteral d2 h operand p \<noteq> Inl RangeError" using less.IH by blast
    with PrefixUnaryExpression d d1 show ?thesis
      by (cases operator)
         (auto simp add: resolveToLiteral_Prefix resolvePrefixUnaryExpressionToLiteral.simps(2)
            split: sum.splits ResolverResult.splits)
  next
    case (ArrayLiteralExpression elements)
    have "resolveToLiteral d1 h x p \<noteq> Inl RangeError" if x: "x \<in> set elements" for x
    proof -
      from x have "size x \<le> size_list size elements" by (rule size_in_list)
      with ArrayLiteralExpression less.prems(2) d have "3 * size x + 1 \<le> d1" by simp
      moreover from x ArrayLiteralExpression less.prems(1) have "identifierFree x"
        by (simp add: list_all_iff)
      moreover have "d1 < d" using d by simp
      ultimately show ?thesis using less.IH by blast
    qed
    then have "mapE (\<lambda>element. resolveToLiteral d1 h element p) elements \<noteq> Inl RangeError"
      by (rule mapE_no_overflow)
    with ArrayLiteralExpression d show ?thesis
      by (auto simp add: resolveToLiteral_Array split: sum.splits)
  next
    case (ParenthesizedExpression inner)
    with less.prems d have "identifierFree inner" "3 * size inner + 1 \<le> d1" "d1 < d"
      by simp_all
    then have "resolveToLiteral d1 h inner p \<noteq> Inl RangeError" using less.IH by blast
    with ParenthesizedExpression d show ?thesis by (simp add: resolveToLiteral_Parenthesized)
  next
    case (ComputedPropertyName inner)
    with less.prems d have "identifierFree inner" "3 * size inner + 1 \<le> d1" "d1 < d"
      by simp_all
    then have "resolveToLiteral d1 h inner p \<noteq> Inl RangeError" using less.IH by blast
    with ComputedPropertyName d show ?thesis by (simp add: resolveToLiteral_Computed)
  next
    case (AsExpression inner)
    with less.prems d have "identifierFree inner" "3 * size inner + 1 \<le> d1" "d1 < d"
      by simp_all
    then have "resolveToLiteral d1 h inner p \<noteq> Inl RangeError" using less.IH by blast
    with AsExpression d show ?thesis by (simp add: resolveToLiteral_As)
  next
    case (VariableDeclaration initializer)
    show ?thesis
    proof (cases initializer)
      case None
      with VariableDeclaration d show ?thesis by (simp add: resolveToLiteral_Declaration)
    next
      case (Some inner)
      with VariableDeclaration less.prems d
      have "identifierFree inner" "3 * size inner + 1 \<le> d1" "d1 < d" by simp_all
      then have "resolveToLiteral d1 h inner p \<noteq> Inl RangeError" using less.IH by blast
      with VariableDeclaration Some d show ?thesis by (simp add: resolveToLiteral_Declaration)
    qed
  next
    case (ObjectLiteralExpression properties)
    let ?f = "\<lambda>acc element. case element of
               PropertyAssignment name initializer \<Rightarrow>
                 (case resolveToLiteral d1 h name p of
                    Inl e \<Rightarrow> Inl e
                  | Inr key \<Rightarrow>
                      (case resolveToLiteral d1 h initializer p of
                         Inl e \<Rightarrow> Inl e
                       | Inr val \<Rightarrow>
                           (case ToString h (resultValue key) of
                              Inl e \<Rightarrow> Inl e
                            | Inr keyText \<Rightarrow>
                                setProperty h acc keyText (resultValue val))))
             | _ \<Rightarrow> Inr acc"
    have "?f a x \<noteq> Inl RangeError" if x: "x \<in> set properties" for a x
    proof (cases x)
      case (PropertyAssignment name initializer)
      from x have "size x \<le> size_list size properties" by (rule size_in_list)
      with PropertyAssignment ObjectLiteralExpression less.prems(2) d
      have "3 * size name + 1 \<le> d1" "3 * size initializer + 1 \<le> d1" by simp_all
      moreover from x PropertyAssignment ObjectLiteralExpression less.prems(1)
      have "identifierFree name" "identifierFree initializer" by (auto simp add: list_all_iff)
      moreover have "d1 < d" using d by simp
      ultimately have "resolveToLiteral d1 h name p \<noteq> Inl RangeError"
        "resolveToLiteral d1 h initializer p \<noteq> Inl RangeError"
        using less.IH by blast+
      with PropertyAssignment show ?thesis
        by (auto simp add: ToString_no_overflow setProperty_no_overflow split: sum.splits)
    qed simp_all
    then have "reduceE ?f properties (PlainObject None []) \<noteq> Inl RangeError"
      by (rule reduceE_no_overflow)
    with ObjectLiteralExpression d show ?thesis
      by (auto simp add: resolveToLiteral_Object split: sum.splits)
  next
    case (Identifier pos name)
    with less.prems(1) show ?thesis by simp
  qed (use d in \<open>auto simp add: resolveToLiteral_unfold split: option.splits\<close>)
qed

lemma unbound_identifier_value:
  assumes "getSymbolAtLocation p (Identifier pos escapedText) = None"
  shows "resolveToLiteral (Suc d) h (Identifier pos escapedText) p =
           Inr (ResStringLiteral escapedText)"
  using assms by (simp add: resolveToLiteral_Identifier)

text \<open>
  C5: an identifier for which the semantic model finds no symbol resolves to a text
  literal whose value is the identifier's own name text. The code returns the
  \<^verbatim>\<open>escapedText\<close> of the node instead: for the unbound identifier \<^verbatim>\<open>__foo\<close>, which
  the compiler stores as \<^verbatim>\<open>___foo\<close>, the value is \<^verbatim>\<open>___foo\<close>, with three
  underscores, and the name is \<^verbatim>\<open>__foo\<close>.
\<close>

theorem unbound_identifier_is_escaped:
  "escapeLeadingUnderscores ''__foo'' = ''___foo'' \<and>
   unescapeLeadingUnderscores ''___foo'' = ''__foo'' \<and>
   resolveToLiteral (Suc d) h (Identifier 4 ''___foo'') noSymbols =
     Inr (ResStringLiteral ''___foo'') \<and>
   resolveToLiteral (Suc d) h (Identifier 4 ''___foo'') noSymbols \<noteq>
     Inr (ResStringLiteral (unescapeLeadingUnderscores ''___foo''))"
  by (simp add: escapeLeadingUnderscores_def unescapeLeadingUnderscores_def
        resolveToLiteral_Identifier noSymbols_def)

text \<open>
  For a name that does not begin with two underscores, which is stored as it is, the
  value is the name.
\<close>

lemma plain_identifier_is_text:
  assumes "take 2 name \<noteq> ''__''"
    and "getSymbolAtLocation p (Identifier pos (escapeLeadingUnderscores name)) = None"
  shows "resolveToLiteral (Suc d) h (Identifier pos (escapeLeadingUnderscores name)) p =
           Inr (ResStringLiteral name)"
  using assms by (simp add: escapeLeadingUnderscores_def resolveToLiteral_Identifier)




section \<open>Arrays, tuples and templates\<close>

lemma mapE_Inr_iff: "mapE f xs = Inr ys \<longleftrightarrow> map f xs = map Inr ys"
proof (induction xs arbitrary: ys)
  case Nil
  show ?case by auto
next
  case (Cons x xs)
  show ?case
    by (cases ys; cases "f x"; cases "mapE f xs") (auto simp add: Cons.IH[symmetric])
qed

lemma array_never_unresolved:
  "resolveToLiteral d h (ArrayLiteralExpression elements) p \<noteq> Inr ResUnresolved"
  by (cases d) (simp_all add: resolveToLiteral_Array split: sum.splits)

text \<open>
  C3: resolving an array literal returns the array discriminant with one entry for each
  element, in source order, each entry being the \<^verbatim>\<open>value\<close> field of the result of
  resolving that element; an element that is unresolved contributes \<^verbatim>\<open>undefined\<close> at
  its position, and the array itself is never the unresolved result. "The result of
  resolving an element" is there whenever resolving the elements returns, which is the
  premise; that the array is never the unresolved result holds without it.
\<close>
theorem array_resolution:
  assumes "map (\<lambda>element. resolveToLiteral d h element p) elements = map Inr results"
  shows "resolveToLiteral (Suc d) h (ArrayLiteralExpression elements) p =
           Inr (ResArrayLiteralExpression (map resultValue results)) \<and>
         length (map resultValue results) = length elements \<and>
         (\<forall>i < length elements.
            resolveToLiteral d h (elements ! i) p = Inr (results ! i) \<and>
            map resultValue results ! i = resultValue (results ! i) \<and>
            (results ! i = ResUnresolved \<longrightarrow> map resultValue results ! i = JSUndefined)) \<and>
         (\<forall>d'. resolveToLiteral d' h (ArrayLiteralExpression elements) p \<noteq> Inr ResUnresolved)"
proof -
  from assms have len: "length results = length elements"
    by (metis length_map)
  from assms have "mapE (\<lambda>element. resolveToLiteral d h element p) elements = Inr results"
    by (simp add: mapE_Inr_iff)
  then have a: "resolveToLiteral (Suc d) h (ArrayLiteralExpression elements) p =
           Inr (ResArrayLiteralExpression (map resultValue results))"
    by (simp add: resolveToLiteral_Array)
  have b: "resolveToLiteral d h (elements ! i) p = Inr (results ! i)" if "i < length elements" for i
  proof -
    from that len have "map (\<lambda>element. resolveToLiteral d h element p) elements ! i =
                        map Inr results ! i" using assms by simp
    with that len show ?thesis by simp
  qed
  from a b len show ?thesis by (simp add: array_never_unresolved)
qed

theorem array_resolution_witness:
  "map (\<lambda>element. resolveToLiteral (Suc 0) integerHost element noSymbols)
     [StringLiteral ''hello'', OtherNode, NumericLiteral ''123''] =
   map Inr [ResStringLiteral ''hello'', ResUnresolved, ResNumericLiteral 123] \<and>
   resolveToLiteral (Suc (Suc 0)) integerHost
     (ArrayLiteralExpression [StringLiteral ''hello'', OtherNode, NumericLiteral ''123''])
     noSymbols =
   Inr (ResArrayLiteralExpression [JSString ''hello'', JSUndefined, JSNumber 123])"
proof -
  have a: "map (\<lambda>element. resolveToLiteral (Suc 0) integerHost element noSymbols)
             [StringLiteral ''hello'', OtherNode, NumericLiteral ''123''] =
           map Inr [ResStringLiteral ''hello'', ResUnresolved, ResNumericLiteral 123]"
    by (simp add: resolveToLiteral_unfold integerHost_def parseDigits_def)
  from array_resolution[OF a] a show ?thesis by simp
qed

lemma reference_never_unresolved:
  assumes "type_flags t = TypeFlags_Object" and "objectFlags t = ObjectFlags_Reference"
  shows "resolveTypeToLiteral d h t p \<noteq> Inr ResUnresolved"
proof (cases d)
  case 0
  then show ?thesis by simp
next
  case d1: (Suc d1)
  show ?thesis
  proof (cases d1)
    case 0
    with d1 assms show ?thesis by (simp add: resolveTypeToLiteral.simps(2) flags_defs)
  next
    case d2: (Suc d2)
    show ?thesis
    proof (cases d2)
      case 0
      with d1 d2 assms show ?thesis
        by (simp add: resolveTypeToLiteral.simps(2) resolveObjectTypeToLiteral.simps(2) flags_defs)
    next
      case (Suc d3)
      with d1 d2 assms show ?thesis
        by (simp add: resolveTypeToLiteral.simps(2) resolveObjectTypeToLiteral.simps(2)
              resolveTypeReferenceToLiteral.simps(2) flags_defs split: sum.splits)
    qed
  qed
qed

lemma reference_arguments:
  assumes "type_flags t = TypeFlags_Object" and "objectFlags t = ObjectFlags_Reference"
    and "map (\<lambda>arg. resolveTypeToLiteral d h arg p) (getTypeArguments p t) = map Inr results"
  shows "resolveTypeToLiteral (Suc (Suc (Suc d))) h t p =
           Inr (ResArrayLiteralExpression (map resultValue results)) \<and>
         length (map resultValue results) = length (getTypeArguments p t) \<and>
         (\<forall>i < length (getTypeArguments p t).
            resolveTypeToLiteral d h (getTypeArguments p t ! i) p = Inr (results ! i) \<and>
            map resultValue results ! i = resultValue (results ! i) \<and>
            (results ! i = ResUnresolved \<longrightarrow> map resultValue results ! i = JSUndefined))"
proof -
  let ?args = "getTypeArguments p t"
  from assms(3) have len: "length results = length ?args"
    by (metis length_map)
  from assms(3) have "mapE (\<lambda>arg. resolveTypeToLiteral d h arg p) ?args = Inr results"
    by (simp add: mapE_Inr_iff)
  with assms(1,2) have a: "resolveTypeToLiteral (Suc (Suc (Suc d))) h t p =
           Inr (ResArrayLiteralExpression (map resultValue results))"
    by (simp add: resolveTypeToLiteral.simps(2) resolveObjectTypeToLiteral.simps(2)
          resolveTypeReferenceToLiteral.simps(2) flags_defs)
  have b: "resolveTypeToLiteral d h (?args ! i) p = Inr (results ! i)" if "i < length ?args" for i
  proof -
    from that len have "map (\<lambda>arg. resolveTypeToLiteral d h arg p) ?args ! i =
                        map Inr results ! i" using assms(3) by simp
    with that len show ?thesis by simp
  qed
  from a b len show ?thesis by auto
qed

lemma reference_without_arguments:
  assumes "type_flags t = TypeFlags_Object" and "objectFlags t = ObjectFlags_Reference"
    and "getTypeArguments p t = []"
  shows "resolveTypeToLiteral (Suc (Suc (Suc d))) h t p = Inr (ResArrayLiteralExpression [])"
  using assms
  by (simp add: resolveTypeToLiteral.simps(2) resolveObjectTypeToLiteral.simps(2)
        resolveTypeReferenceToLiteral.simps(2) flags_defs)

lemma other_object_type:
  assumes "type_flags t = TypeFlags_Object" and "objectFlags t \<noteq> ObjectFlags_Reference"
  shows "resolveTypeToLiteral (Suc (Suc d)) h t p =
           (case type_symbol t of
              None \<Rightarrow> Inr ResUnresolved
            | Some s \<Rightarrow> resolveSymbolToLiteral d h s p)"
  using assms
  by (simp add: resolveTypeToLiteral.simps(2) resolveObjectTypeToLiteral.simps(2) flags_defs
        split: option.splits)

lemma empty_tuple_type_result:
  "resolveTypeToLiteral d' integerHost emptyTupleType tupleProgram \<noteq>
     Inr (ResArrayLiteralExpression [])"
proof (cases "Suc (Suc 0) \<le> d'")
  case True
  then obtain k where k: "d' = Suc (Suc 0) + k" using le_Suc_ex by blast
  have two: "resolveTypeToLiteral (Suc (Suc 0)) integerHost emptyTupleType tupleProgram =
               Inr ResUnresolved"
    by (simp add: other_object_type emptyTupleType_def flags_defs)
  have "resolveTypeToLiteral (Suc (Suc 0) + k) integerHost emptyTupleType tupleProgram =
        resolveTypeToLiteral (Suc (Suc 0)) integerHost emptyTupleType tupleProgram"
    by (rule type_stable) (simp add: two)
  also note two
  finally have "resolveTypeToLiteral d' integerHost emptyTupleType tupleProgram =
                  Inr ResUnresolved"
    unfolding k .
  then show ?thesis by simp
next
  case False
  then consider "d' = 0" | "d' = Suc 0" by arith
  then show ?thesis
    by cases (simp_all add: resolveTypeToLiteral.simps(2) emptyTupleType_def flags_defs)
qed

text \<open>
  C10 as stated fails. The type of \<^verbatim>\<open>[] as const\<close>, the empty tuple, is a reference
  with no type arguments; its \<^verbatim>\<open>objectFlags\<close> are \<^verbatim>\<open>Reference | Tuple\<close>, which the
  \<^verbatim>\<open>switch\<close> of \<^verbatim>\<open>resolveObjectTypeToLiteral\<close> does not take for \<^verbatim>\<open>Reference\<close>, and it has
  no symbol. It resolves to the unresolved result, at no call depth to the empty array.
\<close>

theorem empty_tuple_counterexample:
  "type_flags emptyTupleType = TypeFlags_Object \<and>
   objectFlags emptyTupleType = ObjectFlags_Reference + ObjectFlags_Tuple \<and>
   type_symbol emptyTupleType = None \<and>
   getTypeArguments tupleProgram emptyTupleType = [] \<and>
   resolveTypeToLiteral (Suc (Suc 0)) integerHost emptyTupleType tupleProgram =
     Inr ResUnresolved \<and>
   (\<forall>d'. resolveTypeToLiteral d' integerHost emptyTupleType tupleProgram \<noteq>
           Inr (ResArrayLiteralExpression []))"
proof -
  have "resolveTypeToLiteral (Suc (Suc 0)) integerHost emptyTupleType tupleProgram =
          Inr ResUnresolved"
    by (simp add: other_object_type emptyTupleType_def flags_defs)
  with empty_tuple_type_result show ?thesis
    by (simp add: emptyTupleType_def tupleProgram_def)
qed

text \<open>
  C10, amended: for an object type whose \<^verbatim>\<open>objectFlags\<close> are exactly \<^verbatim>\<open>Reference\<close>,
  type-based resolution never returns the unresolved result. It returns the array
  discriminant with one entry for each type argument, in order; a type argument that does
  not resolve contributes \<^verbatim>\<open>undefined\<close> at its position, and no type arguments give the
  empty sequence. As for arrays, the premise is that resolving the type arguments returns.
  A reference whose \<^verbatim>\<open>objectFlags\<close> have any other bit, as the empty tuple has, is resolved
  as any other object type: through its symbol, and to the unresolved result when it has
  none.
\<close>

theorem type_reference_resolution:
  assumes "type_flags t = TypeFlags_Object"
  shows "(objectFlags t = ObjectFlags_Reference \<longrightarrow>
            (\<forall>d'. resolveTypeToLiteral d' h t p \<noteq> Inr ResUnresolved) \<and>
            (getTypeArguments p t = [] \<longrightarrow>
               resolveTypeToLiteral (Suc (Suc (Suc d))) h t p =
                 Inr (ResArrayLiteralExpression [])) \<and>
            (\<forall>results.
               map (\<lambda>arg. resolveTypeToLiteral d h arg p) (getTypeArguments p t) =
                 map Inr results \<longrightarrow>
               resolveTypeToLiteral (Suc (Suc (Suc d))) h t p =
                 Inr (ResArrayLiteralExpression (map resultValue results)) \<and>
               length (map resultValue results) = length (getTypeArguments p t) \<and>
               (\<forall>i < length (getTypeArguments p t).
                  resolveTypeToLiteral d h (getTypeArguments p t ! i) p = Inr (results ! i) \<and>
                  map resultValue results ! i = resultValue (results ! i) \<and>
                  (results ! i = ResUnresolved \<longrightarrow>
                     map resultValue results ! i = JSUndefined)))) \<and>
         (objectFlags t \<noteq> ObjectFlags_Reference \<longrightarrow>
            resolveTypeToLiteral (Suc (Suc d)) h t p =
              (case type_symbol t of
                 None \<Rightarrow> Inr ResUnresolved
               | Some s \<Rightarrow> resolveSymbolToLiteral d h s p))"
  using reference_never_unresolved[OF assms] reference_without_arguments[OF assms]
    reference_arguments[OF assms] other_object_type[OF assms]
  by blast

theorem type_reference_resolution_witness:
  "type_flags booleanTupleType = TypeFlags_Object \<and>
   objectFlags booleanTupleType = ObjectFlags_Reference \<and>
   map (\<lambda>arg. resolveTypeToLiteral (Suc 0) integerHost arg tupleProgram)
     (getTypeArguments tupleProgram booleanTupleType) = map Inr [ResUnresolved] \<and>
   resolveTypeToLiteral (Suc (Suc (Suc (Suc 0)))) integerHost booleanTupleType tupleProgram =
     Inr (ResArrayLiteralExpression [JSUndefined]) \<and>
   type_flags emptyTupleType = TypeFlags_Object \<and>
   objectFlags emptyTupleType \<noteq> ObjectFlags_Reference \<and>
   type_symbol emptyTupleType = None \<and>
   resolveTypeToLiteral (Suc (Suc (Suc 0))) integerHost emptyTupleType tupleProgram =
     Inr ResUnresolved"
proof -
  have a: "type_flags booleanTupleType = TypeFlags_Object"
    by (simp add: booleanTupleType_def)
  have b: "objectFlags booleanTupleType = ObjectFlags_Reference"
    by (simp add: booleanTupleType_def)
  have c: "map (\<lambda>arg. resolveTypeToLiteral (Suc 0) integerHost arg tupleProgram)
     (getTypeArguments tupleProgram booleanTupleType) = map Inr [ResUnresolved]"
    by (simp add: resolveTypeToLiteral.simps(2) tupleProgram_def booleanTupleType_def
          trueType_def flags_defs)
  from type_reference_resolution[OF a, of integerHost tupleProgram "Suc 0"] b c
  have d: "resolveTypeToLiteral (Suc (Suc (Suc (Suc 0)))) integerHost booleanTupleType
             tupleProgram =
           Inr (ResArrayLiteralExpression (map resultValue [ResUnresolved :: int ResolverResult]))"
    by blast
  have e: "type_flags emptyTupleType = TypeFlags_Object"
    by (simp add: emptyTupleType_def)
  have f: "objectFlags emptyTupleType \<noteq> ObjectFlags_Reference"
    by (simp add: emptyTupleType_def flags_defs)
  have g: "type_symbol emptyTupleType = None"
    by (simp add: emptyTupleType_def)
  from type_reference_resolution[OF e, of integerHost tupleProgram "Suc 0"] f
  have "resolveTypeToLiteral (Suc (Suc (Suc 0))) integerHost emptyTupleType tupleProgram =
          (case type_symbol emptyTupleType of
             None \<Rightarrow> Inr ResUnresolved
           | Some s \<Rightarrow> resolveSymbolToLiteral (Suc 0) integerHost s tupleProgram)"
    by blast
  with g have h: "resolveTypeToLiteral (Suc (Suc (Suc 0))) integerHost emptyTupleType
                    tupleProgram = Inr ResUnresolved"
    by simp
  from a b c d e f g h show ?thesis by simp
qed

lemma join_empty: "join [] xs = concat xs"
  by (induction "[] :: string" xs rule: join.induct) simp_all

lemma mapTemplateSpan_returns:
  assumes "resolveToLiteral d h (span_expression span) p = Inr r"
  shows "mapTemplateSpan (Suc d) h span p =
           Inr \<lparr>canBeResolved = (spec_stringified h r \<noteq> None),
                stringLiteral = (case spec_stringified h r of
                                   Some s \<Rightarrow> s @ span_literal_text span
                                 | None \<Rightarrow> [])\<rparr>"
  using assms by (cases span; cases r) (simp_all add: mapTemplateSpan.simps(2))

lemma mapTemplateSpan_all:
  assumes "map (\<lambda>span. resolveToLiteral d h (span_expression span) p) spans = map Inr results"
  shows "mapE (\<lambda>span. mapTemplateSpan (Suc d) h span p) spans =
           Inr (map (\<lambda>(r, span).
                       \<lparr>canBeResolved = (spec_stringified h r \<noteq> None),
                        stringLiteral = (case spec_stringified h r of
                                           Some s \<Rightarrow> s @ span_literal_text span
                                         | None \<Rightarrow> [])\<rparr>)
                  (zip results spans))"
  using assms
proof (induction spans arbitrary: results)
  case Nil
  then show ?case by simp
next
  case (Cons span spans)
  then obtain r rs where results: "results = r # rs" by (cases results) auto
  with Cons.prems have "resolveToLiteral d h (span_expression span) p = Inr r"
    and "map (\<lambda>span. resolveToLiteral d h (span_expression span) p) spans = map Inr rs"
    by simp_all
  with Cons.IH[of rs] results show ?case by (simp add: mapTemplateSpan_returns)
qed

text \<open>
  C2: when the expression of every span of a template resolves to a text, a number, an
  arbitrary-precision integer or a boolean, the template resolves to the text made of
  the head followed, for each span, by the stringified value and the span's literal
  text; when the expression of some span resolves to anything else, the unresolved
  result included, the whole template is unresolved. The premise is that resolving the
  expressions of the spans returns.
\<close>
theorem template_resolution:
  assumes "map (\<lambda>span. resolveToLiteral d h (span_expression span) p) spans = map Inr results"
  shows "resolveToLiteral (Suc (Suc (Suc d))) h (TemplateExpression head spans) p =
           (if \<forall>r \<in> set results. spec_stringified h r \<noteq> None
            then Inr (ResStringLiteral
                        (head @ concat (map (\<lambda>(r, span). the (spec_stringified h r) @
                                                          span_literal_text span)
                                          (zip results spans))))
            else Inr ResUnresolved)"
proof -
  from assms have len: "length results = length spans" by (metis length_map)
  let ?m = "\<lambda>(r, span).
              \<lparr>canBeResolved = (spec_stringified h r \<noteq> None),
               stringLiteral = (case spec_stringified h r of
                                  Some s \<Rightarrow> s @ span_literal_text span
                                | None \<Rightarrow> [])\<rparr>"
  have every: "list_all canBeResolved (map ?m (zip results spans)) \<longleftrightarrow>
               (\<forall>r \<in> set results. spec_stringified h r \<noteq> None)"
    using len
  proof (induction results spans rule: list_induct2)
    case Nil
    show ?case by simp
  next
    case (Cons r rs span spans)
    then show ?case by auto
  qed
  have texts: "map stringLiteral (map ?m (zip results spans)) =
               map (\<lambda>(r, span). the (spec_stringified h r) @ span_literal_text span)
                 (zip results spans)"
    if "\<forall>r \<in> set results. spec_stringified h r \<noteq> None"
    using len that
  proof (induction results spans rule: list_induct2)
    case Nil
    show ?case by simp
  next
    case (Cons r rs span spans)
    then show ?case by auto
  qed
  from mapTemplateSpan_all[OF assms] every texts show ?thesis
    by (simp add: resolveToLiteral_Template resolveTemplateExpressionToLiteral.simps(2)
          join_empty del: map_map)
qed

theorem template_resolution_witness:
  "map (\<lambda>span. resolveToLiteral (Suc 0) integerHost (span_expression span) noSymbols)
     [TemplateSpan (NumericLiteral ''1'') '' + '', TemplateSpan (NumericLiteral ''2'') '' = '',
      TemplateSpan (NumericLiteral ''3'') []] =
   map Inr [ResNumericLiteral 1, ResNumericLiteral 2, ResNumericLiteral 3] \<and>
   resolveToLiteral (Suc (Suc (Suc (Suc 0)))) integerHost
     (TemplateExpression []
        [TemplateSpan (NumericLiteral ''1'') '' + '', TemplateSpan (NumericLiteral ''2'') '' = '',
         TemplateSpan (NumericLiteral ''3'') []]) noSymbols =
   Inr (ResStringLiteral ''1 + 2 = 3'') \<and>
   map (\<lambda>span. resolveToLiteral (Suc 0) integerHost (span_expression span) noSymbols)
     [TemplateSpan (NumericLiteral ''1'') '' + '', TemplateSpan OtherNode []] =
   map Inr [ResNumericLiteral 1, ResUnresolved] \<and>
   resolveToLiteral (Suc (Suc (Suc (Suc 0)))) integerHost
     (TemplateExpression ''sum: ''
        [TemplateSpan (NumericLiteral ''1'') '' + '', TemplateSpan OtherNode []]) noSymbols =
   Inr ResUnresolved"
proof -
  have a: "map (\<lambda>span. resolveToLiteral (Suc 0) integerHost (span_expression span) noSymbols)
     [TemplateSpan (NumericLiteral ''1'') '' + '', TemplateSpan (NumericLiteral ''2'') '' = '',
      TemplateSpan (NumericLiteral ''3'') []] =
   map Inr [ResNumericLiteral 1, ResNumericLiteral 2, ResNumericLiteral 3]"
    by (simp add: resolveToLiteral_unfold integerHost_def parseDigits_def)
  have b: "map (\<lambda>span. resolveToLiteral (Suc 0) integerHost (span_expression span) noSymbols)
     [TemplateSpan (NumericLiteral ''1'') '' + '', TemplateSpan OtherNode []] =
   map Inr [ResNumericLiteral 1, ResUnresolved]"
    by (simp add: resolveToLiteral_unfold integerHost_def parseDigits_def)
  have c: "resolveToLiteral (Suc (Suc (Suc (Suc 0)))) integerHost
     (TemplateExpression []
        [TemplateSpan (NumericLiteral ''1'') '' + '', TemplateSpan (NumericLiteral ''2'') '' = '',
         TemplateSpan (NumericLiteral ''3'') []]) noSymbols =
   Inr (ResStringLiteral ''1 + 2 = 3'')"
    using template_resolution[OF a, of "[]"]
    by (simp add: integerHost_def bigintToString_def natToString.simps)
  have d: "resolveToLiteral (Suc (Suc (Suc (Suc 0)))) integerHost
     (TemplateExpression ''sum: ''
        [TemplateSpan (NumericLiteral ''1'') '' + '', TemplateSpan OtherNode []]) noSymbols =
   Inr ResUnresolved"
    using template_resolution[OF b, of "''sum: ''"] by simp
  from a b c d show ?thesis by blast
qed

section \<open>Objects and patterns\<close>

text \<open>
  C4: every plain property assignment of an object literal inserts its key, coerced to
  text, with the value of its initializer. The code misses one key: for
  \<^verbatim>\<open>({ ["__proto__"]: 1 })\<close> the assignment \<^verbatim>\<open>acc["__proto__"] = 1\<close> reaches the
  setter every plain object inherits and inserts nothing, so the result is the empty
  object. The same literal with any other key, here \<^verbatim>\<open>proto\<close>, has its entry.
\<close>
theorem proto_key_is_dropped:
  "resolveToLiteral (Suc (Suc (Suc d))) h
     (ObjectLiteralExpression
        [PropertyAssignment (ComputedPropertyName (StringLiteral ''__proto__''))
           (NumericLiteral ''1'')]) p =
     Inr (ResObjectLiteralExpression (PlainObject None [])) \<and>
   resolveToLiteral (Suc (Suc (Suc d))) h
     (ObjectLiteralExpression
        [PropertyAssignment (ComputedPropertyName (StringLiteral ''proto''))
           (NumericLiteral ''1'')]) p =
     Inr (ResObjectLiteralExpression
            (PlainObject None [(''proto'', JSNumber (parseFloat h ''1''))]))"
  by (simp add: resolveToLiteral_unfold setProperty_def)

lemma setProperty_plain:
  "key \<noteq> ''__proto__'' \<Longrightarrow>
     setProperty h (PlainObject None own) key v = Inr (PlainObject None (AList.update key v own))"
  by (simp add: setProperty_def)

lemma object_reduce:
  assumes "\<forall>element \<in> set properties. \<forall>name initializer.
             element = PropertyAssignment name initializer \<longrightarrow>
             (\<exists>key val keyText.
                resolveToLiteral d h name p = Inr key \<and>
                resolveToLiteral d h initializer p = Inr val \<and>
                ToString h (resultValue key) = Inr keyText \<and> keyText \<noteq> ''__proto__'')"
  shows "\<exists>own. reduceE
             (\<lambda>acc prop.
                case prop of
                  PropertyAssignment name initializer \<Rightarrow>
                    (case resolveToLiteral d h name p of
                       Inl e \<Rightarrow> Inl e
                     | Inr key \<Rightarrow>
                         (case resolveToLiteral d h initializer p of
                            Inl e \<Rightarrow> Inl e
                          | Inr val \<Rightarrow>
                              (case ToString h (resultValue key) of
                                 Inl e \<Rightarrow> Inl e
                               | Inr keyText \<Rightarrow>
                                   setProperty h acc keyText (resultValue val))))
                | _ \<Rightarrow> Inr acc)
             properties (PlainObject None own0) = Inr (PlainObject None own) \<and>
           map_of own = map_of (rev (spec_entries d h p properties) @ own0)"
  using assms
proof (induction properties arbitrary: own0)
  case Nil
  show ?case by simp
next
  case (Cons element properties)
  from Cons.prems have rest: "\<forall>element \<in> set properties. \<forall>name initializer.
             element = PropertyAssignment name initializer \<longrightarrow>
             (\<exists>key val keyText.
                resolveToLiteral d h name p = Inr key \<and>
                resolveToLiteral d h initializer p = Inr val \<and>
                ToString h (resultValue key) = Inr keyText \<and> keyText \<noteq> ''__proto__'')"
    by simp
  show ?case
  proof (cases element)
    case (PropertyAssignment name initializer)
    with Cons.prems obtain key val keyText
      where key: "resolveToLiteral d h name p = Inr key"
        and val: "resolveToLiteral d h initializer p = Inr val"
        and coerced: "ToString h (resultValue key) = Inr keyText"
        and plain: "keyText \<noteq> ''__proto__''"
      by auto
    from Cons.IH[OF rest, of "AList.update keyText (resultValue val) own0"]
      PropertyAssignment key val coerced plain
    show ?thesis
      by (auto simp add: setProperty_plain update_conv' map_add_def fun_eq_iff
            split: option.splits)
  next
    case (ShorthandPropertyAssignment x)
    with Cons.IH[OF rest, of own0] show ?thesis by simp
  next
    case (SpreadAssignment x)
    with Cons.IH[OF rest, of own0] show ?thesis by simp
  next
    case (MethodDeclaration x)
    with Cons.IH[OF rest, of own0] show ?thesis by simp
  next
    case (GetAccessor x)
    with Cons.IH[OF rest, of own0] show ?thesis by simp
  next
    case (SetAccessor x)
    with Cons.IH[OF rest, of own0] show ?thesis by simp
  qed
qed

text \<open>
  Every other key behaves as C4 says. When resolving the keys and the initializers of
  the plain property assignments returns and the keys coerce to texts other than
  \<^verbatim>\<open>__proto__\<close>, the literal resolves to the object discriminant, and looking a key
  up in the result gives the value of the last assignment that contributed that key;
  members of the other kinds contribute nothing.
\<close>

lemma object_resolution:
  assumes "\<forall>element \<in> set properties. \<forall>name initializer.
             element = PropertyAssignment name initializer \<longrightarrow>
             (\<exists>key val keyText.
                resolveToLiteral d h name p = Inr key \<and>
                resolveToLiteral d h initializer p = Inr val \<and>
                ToString h (resultValue key) = Inr keyText \<and> keyText \<noteq> ''__proto__'')"
  shows "\<exists>own. resolveToLiteral (Suc d) h (ObjectLiteralExpression properties) p =
                 Inr (ResObjectLiteralExpression (PlainObject None own)) \<and>
               map_of own = map_of (rev (spec_entries d h p properties))"
proof -
  from object_reduce[OF assms, of "[]"] show ?thesis
    by (auto simp add: resolveToLiteral_Object)
qed

text \<open>
  A key that is itself an object is coerced as the runtime does it. In
  \<^verbatim>\<open>({ [{ "toString": 1 }]: 2 })\<close> the key has a \<^verbatim>\<open>toString\<close> of its own that is not
  callable, and the resolver throws TypeError; in \<^verbatim>\<open>({ [{ ["__proto__"]: [1, 2] }]: 3 })\<close>
  the key has the array for prototype, and its text is \<^verbatim>\<open>1,2\<close>.
\<close>

lemma object_keys:
  "resolveToLiteral (Suc (Suc (Suc (Suc d)))) h
     (ObjectLiteralExpression
        [PropertyAssignment
           (ComputedPropertyName
              (ObjectLiteralExpression
                 [PropertyAssignment (StringLiteral ''toString'') (NumericLiteral ''1'')]))
           (NumericLiteral ''2'')]) p = Inl TypeError"
  "resolveToLiteral (Suc (Suc (Suc (Suc (Suc 0))))) integerHost
     (ObjectLiteralExpression
        [PropertyAssignment
           (ComputedPropertyName
              (ObjectLiteralExpression
                 [PropertyAssignment (ComputedPropertyName (StringLiteral ''__proto__''))
                    (ArrayLiteralExpression [NumericLiteral ''1'', NumericLiteral ''2''])]))
           (NumericLiteral ''3'')]) noSymbols =
     Inr (ResObjectLiteralExpression (PlainObject None [(''1,2'', JSNumber 3)]))"
  by (simp_all add: resolveToLiteral_unfold setProperty_def integerHost_def parseDigits_def
        bigintToString_def natToString.simps)

text \<open>
  C6: a pattern literal resolves to the pattern compiled from its body, the delimiters
  stripped. The code strips the first and the last character of the literal. For
  \<^verbatim>\<open>/hello/gi\<close> the body is \<^verbatim>\<open>hello\<close>, but the text handed to the constructor is
  \<^verbatim>\<open>hello/g\<close>: the last character is a flag, not the closing slash.
\<close>
theorem pattern_with_flags:
  "spec_patternBody ''/hello/gi'' = ''hello'' \<and>
   slice 1 (- 1) ''/hello/gi'' = ''hello/g'' \<and>
   resolveToLiteral (Suc d) h (RegularExpressionLiteral ''/hello/gi'') p =
     (case RegExp h ''hello/g'' of
        None \<Rightarrow> Inl SyntaxError
      | Some r \<Rightarrow> Inr (ResRegularExpressionLiteral r))"
  by (simp add: resolveToLiteral_unfold spec_patternBody_def slice_def)

text \<open>A literal without flags is compiled from its body.\<close>

lemma pattern_without_flags:
  "spec_patternBody (''/'' @ body @ ''/'') = body \<and>
   resolveToLiteral (Suc d) h (RegularExpressionLiteral (''/'' @ body @ ''/'')) p =
     (case RegExp h body of
        None \<Rightarrow> Inl SyntaxError
      | Some r \<Rightarrow> Inr (ResRegularExpressionLiteral r))"
proof -
  have "slice 1 (- 1) (''/'' @ body @ ''/'') = body"
    by (simp add: slice_def)
  then show ?thesis
    by (simp add: resolveToLiteral_RegExp spec_patternBody_def)
qed


text \<open>
  Section 4.2: unary minus negates a numeric operand; any other operand, and any other
  operator, gives the unresolved result.
\<close>

lemma negation_resolution:
  assumes "resolveToLiteral d h operand p = Inr r"
  shows "resolveToLiteral (Suc (Suc d)) h (PrefixUnaryExpression MinusToken operand) p =
           Inr (case r of
                  ResNumericLiteral x \<Rightarrow> ResNumericLiteral (negate h x)
                | _ \<Rightarrow> ResUnresolved) \<and>
         (operator \<noteq> MinusToken \<longrightarrow>
            resolveToLiteral (Suc (Suc d)) h (PrefixUnaryExpression operator operand) p =
              Inr ResUnresolved)"
  using assms
  by (cases operator; cases r)
     (simp_all add: resolveToLiteral_Prefix resolvePrefixUnaryExpressionToLiteral.simps(2))

section \<open>Literals recovered from types\<close>













end
